theory Spec2Isabelle
  imports Complex_Main
begin

section \<open>The message-format translator of \<^verbatim>\<open>src/api/transform/openai-format.ts\<close>\<close>

text \<open>
  The module converts a conversation in the content-block message format (format A) into
  the chat-completion message format (format B), and one chat completion back into a
  format-A message. Both functions are pure apart from one call of \<^verbatim>\<open>console.error\<close>;
  the model returns the lines written there as a list.
\<close>

subsection \<open>JSON values and the two library functions\<close>

text \<open>
  A tool invocation carries a JSON value. \<^verbatim>\<open>JSON.stringify\<close> and \<^verbatim>\<open>JSON.parse\<close> belong to
  the language, not to the module: the translators take them as the parameters
  \<open>stringify\<close> and \<open>parse\<close>. \<open>parse s = Inl e\<close> stands for \<^verbatim>\<open>JSON.parse(s)\<close> throwing \<open>e\<close>.
\<close>

datatype json =
    JNull
  | JBool bool
  | JNumber rat
  | JString string
  | JArray "json list"
  | JObject "(string \<times> json) list"

definition empty_object :: json where
  "empty_object = JObject []"

subsection \<open>Format A: content blocks\<close>

datatype image_source =
    Base64Source string string  \<comment> \<open>\<open>media_type\<close>, \<open>data\<close>\<close>
  | UrlSource string            \<comment> \<open>\<open>url\<close>\<close>

text \<open>
  The blocks accepted by \<^verbatim>\<open>isTextBlock\<close> or \<^verbatim>\<open>isImageBlock\<close>; a test with one of the
  two guards is a pattern match on this type.
\<close>

datatype text_or_image =
    TextBlock string
  | ImageBlock image_source

datatype tool_result_content =
    ResultString string
  | ResultBlocks "text_or_image list"

record tool_result_block =
  tool_use_id :: string
  result_content :: "tool_result_content option"  \<comment> \<open>\<open>content\<close> is optional\<close>

record tool_use_block =
  use_id :: string
  use_name :: string
  use_input :: json

datatype content_block =
    Plain text_or_image           \<comment> \<open>\<open>type\<close> is \<open>text\<close> or \<open>image\<close>\<close>
  | ToolUse tool_use_block        \<comment> \<open>\<open>type\<close> is \<open>tool_use\<close>\<close>
  | ToolResult tool_result_block  \<comment> \<open>\<open>type\<close> is \<open>tool_result\<close>\<close>

datatype message_content =
    StringContent string
  | BlockContent "content_block list"

record message_param =
  role :: string
  content :: message_content

subsection \<open>Format B: chat-completion messages\<close>

datatype content_part =
    TextPart string      \<comment> \<open>\<open>{type: "text", text}\<close>\<close>
  | ImageUrlPart string  \<comment> \<open>\<open>{type: "image_url", image_url: {url}}\<close>\<close>

datatype chat_content =
    ContentString string
  | ContentParts "content_part list"

record function_call =
  fn_name :: string
  fn_arguments :: string

record tool_call =
  call_id :: string
  call_type :: string
  call_function :: function_call

text \<open>A field that is absent or \<^verbatim>\<open>undefined\<close> is \<open>None\<close>.\<close>

record chat_message =
  chat_role :: string
  chat_content :: "chat_content option"
  tool_call_id :: "string option"
  tool_calls :: "tool_call list option"

subsection \<open>String helpers\<close>

definition newline :: string where
  "newline = [CHR 0x0A]"

definition placeholder :: string where
  "placeholder = ''(see following user message for image)''"

text \<open>\<^verbatim>\<open>Array.prototype.join\<close> on an array of strings.\<close>

fun join :: "string \<Rightarrow> string list \<Rightarrow> string" where
  "join sep [] = []"
| "join sep [x] = x"
| "join sep (x # y # ys) = x @ sep @ join sep (y # ys)"

subsection \<open>Forward translation\<close>

fun getImageUrl :: "image_source \<Rightarrow> content_part" where
  "getImageUrl (Base64Source media_type data) =
     ImageUrlPart (''data:'' @ media_type @ '';base64,'' @ data)"
| "getImageUrl (UrlSource url) = ImageUrlPart url"

text \<open>
  The two \<^verbatim>\<open>reduce\<close> calls: the accumulator is the pair \<open>(nonToolMessages, toolMessages)\<close>,
  and a block of a kind the role cannot send is pushed to neither.
\<close>

fun user_reducer ::
  "text_or_image list \<times> tool_result_block list \<Rightarrow> content_block \<Rightarrow>
   text_or_image list \<times> tool_result_block list" where
  "user_reducer (nonToolMessages, toolMessages) (ToolResult t) =
     (nonToolMessages, toolMessages @ [t])"
| "user_reducer (nonToolMessages, toolMessages) (Plain p) =
     (nonToolMessages @ [p], toolMessages)"
| "user_reducer (nonToolMessages, toolMessages) (ToolUse _) =
     (nonToolMessages, toolMessages)"

fun assistant_reducer ::
  "text_or_image list \<times> tool_use_block list \<Rightarrow> content_block \<Rightarrow>
   text_or_image list \<times> tool_use_block list" where
  "assistant_reducer (nonToolMessages, toolMessages) (ToolUse u) =
     (nonToolMessages, toolMessages @ [u])"
| "assistant_reducer (nonToolMessages, toolMessages) (Plain p) =
     (nonToolMessages @ [p], toolMessages)"
| "assistant_reducer (nonToolMessages, toolMessages) (ToolResult _) =
     (nonToolMessages, toolMessages)"

text \<open>
  The \<^verbatim>\<open>map\<close> over the parts of a tool result pushes every image to \<open>toolResultImages\<close>
  as it goes: the state is the pair of the strings mapped so far and that array.
\<close>

fun result_part ::
  "string list \<times> image_source list \<Rightarrow> text_or_image \<Rightarrow> string list \<times> image_source list" where
  "result_part (strs, toolResultImages) (ImageBlock src) =
     (strs @ [placeholder], toolResultImages @ [src])"
| "result_part (strs, toolResultImages) (TextBlock text) =
     (strs @ [text], toolResultImages)"

fun tool_result_string ::
  "image_source list \<Rightarrow> tool_result_content option \<Rightarrow> string \<times> image_source list" where
  "tool_result_string toolResultImages (Some (ResultString s)) = (s, toolResultImages)"
| "tool_result_string toolResultImages (Some (ResultBlocks parts)) =
     (case foldl result_part ([], toolResultImages) parts of
        (strs, imgs) \<Rightarrow> (join newline strs, imgs))"
| "tool_result_string toolResultImages None = ('''', toolResultImages)"

text \<open>One round of \<^verbatim>\<open>toolMessages.forEach\<close>: the state is \<open>(openAiMessages, toolResultImages)\<close>.\<close>

fun push_tool_message ::
  "chat_message list \<times> image_source list \<Rightarrow> tool_result_block \<Rightarrow>
   chat_message list \<times> image_source list" where
  "push_tool_message (openAiMessages, toolResultImages) toolMessage =
     (case tool_result_string toolResultImages (result_content toolMessage) of
        (s, imgs) \<Rightarrow>
          (openAiMessages @
             [\<lparr>chat_role = ''tool'', chat_content = Some (ContentString s),
               tool_call_id = Some (tool_use_id toolMessage), tool_calls = None\<rparr>],
           imgs))"

fun user_part :: "text_or_image \<Rightarrow> content_part" where
  "user_part (ImageBlock src) = getImageUrl src"
| "user_part (TextBlock text) = TextPart text"

fun assistant_part :: "text_or_image \<Rightarrow> string" where
  "assistant_part (ImageBlock _) = ''''"
| "assistant_part (TextBlock text) = text"

definition to_tool_call :: "(json \<Rightarrow> string) \<Rightarrow> tool_use_block \<Rightarrow> tool_call" where
  "to_tool_call stringify toolMessage =
     \<lparr>call_id = use_id toolMessage, call_type = ''function'',
      call_function =
        \<lparr>fn_name = use_name toolMessage, fn_arguments = stringify (use_input toolMessage)\<rparr>\<rparr>"

text \<open>
  The body of the \<^verbatim>\<open>for\<close> loop. After the \<^verbatim>\<open>forEach\<close> the array \<open>toolResultImages\<close> is
  not read again (the code that did is commented out), so the second component of the
  fold's result is dropped.
\<close>

definition convert_turn ::
  "(json \<Rightarrow> string) \<Rightarrow> chat_message list \<Rightarrow> message_param \<Rightarrow> chat_message list" where
  "convert_turn stringify openAiMessages anthropicMessage =
     (case content anthropicMessage of
        StringContent s \<Rightarrow>
          openAiMessages @
            [\<lparr>chat_role = role anthropicMessage, chat_content = Some (ContentString s),
              tool_call_id = None, tool_calls = None\<rparr>]
      | BlockContent blocks \<Rightarrow>
          if role anthropicMessage = ''user'' then
            (case foldl user_reducer ([], []) blocks of
               (nonToolMessages, toolMessages) \<Rightarrow>
                 (case foldl push_tool_message (openAiMessages, []) toolMessages of
                    (pushed, toolResultImages) \<Rightarrow>
                      if length nonToolMessages > 0 then
                        pushed @
                          [\<lparr>chat_role = ''user'',
                            chat_content = Some (ContentParts (map user_part nonToolMessages)),
                            tool_call_id = None, tool_calls = None\<rparr>]
                      else pushed))
          else if role anthropicMessage = ''assistant'' then
            (case foldl assistant_reducer ([], []) blocks of
               (nonToolMessages, toolMessages) \<Rightarrow>
                 (let content_str =
                        (if length nonToolMessages > 0
                         then Some (ContentString
                                (join newline (map assistant_part nonToolMessages)))
                         else None);
                      calls = map (to_tool_call stringify) toolMessages
                  in openAiMessages @
                       [\<lparr>chat_role = ''assistant'', chat_content = content_str,
                         tool_call_id = None,
                         tool_calls = (if length calls > 0 then Some calls else None)\<rparr>]))
          else openAiMessages)"

definition convertToOpenAiMessages ::
  "(json \<Rightarrow> string) \<Rightarrow> message_param list \<Rightarrow> chat_message list" where
  "convertToOpenAiMessages stringify anthropicMessages =
     foldl (convert_turn stringify) [] anthropicMessages"

subsection \<open>Reverse translation\<close>

record completion_message =
  cm_role :: string
  cm_content :: "string option"           \<comment> \<open>a string or \<^verbatim>\<open>null\<close>\<close>
  cm_tool_calls :: "tool_call list option"

record choice =
  choice_message :: completion_message
  finish_reason :: "string option"        \<comment> \<open>\<open>None\<close>: missing or \<^verbatim>\<open>null\<close>\<close>

record completion_usage =
  prompt_tokens :: int
  completion_tokens :: int

record chat_completion =
  completion_id :: string
  choices :: "choice list"
  completion_model :: string
  usage :: "completion_usage option"

datatype response_block =
    TextOut string "string list option"  \<comment> \<open>\<open>text\<close>, \<open>citations\<close>\<close>
  | ToolUseOut string string json        \<comment> \<open>\<open>id\<close>, \<open>name\<close>, \<open>input\<close>\<close>

record message_usage =
  input_tokens :: int
  output_tokens :: int
  cache_creation_input_tokens :: int
  cache_read_input_tokens :: int

record message =
  msg_id :: string
  msg_type :: string
  msg_role :: string
  msg_content :: "response_block list"
  msg_model :: string
  stop_reason :: "string option"
  stop_sequence :: "string option"
  msg_usage :: message_usage

text \<open>Reading \<^verbatim>\<open>.message\<close> of \<^verbatim>\<open>choices[0]\<close> when there is no choice throws.\<close>

datatype js_error = TypeError

text \<open>The operator \<^verbatim>\<open>||\<close> on a string and on a number: the empty string and 0 are falsy.\<close>

definition or_string :: "string \<Rightarrow> string \<Rightarrow> string" where
  "or_string s d = (if s = [] then d else s)"

definition or_number :: "int \<Rightarrow> int \<Rightarrow> int" where
  "or_number n d = (if n = 0 then d else n)"

text \<open>The \<^verbatim>\<open>switch\<close> on the finish reason.\<close>

definition map_finish_reason :: "string option \<Rightarrow> string option" where
  "map_finish_reason fr =
     (if fr = Some ''stop'' then Some ''end_turn''
      else if fr = Some ''length'' then Some ''max_tokens''
      else if fr = Some ''tool_calls'' then Some ''tool_use''
      else None)"

text \<open>
  One tool call of the \<^verbatim>\<open>map\<close>. The state is the blocks built so far and the lines
  written with \<^verbatim>\<open>console.error\<close>, each line the fixed text and the error caught.
\<close>

fun parse_tool_call ::
  "(string \<Rightarrow> 'e + json) \<Rightarrow> response_block list \<times> (string \<times> 'e) list \<Rightarrow> tool_call \<Rightarrow>
   response_block list \<times> (string \<times> 'e) list" where
  "parse_tool_call parse (blocks, logged) toolCall =
     (case parse (or_string (fn_arguments (call_function toolCall)) ''{}'') of
        Inr parsedInput \<Rightarrow>
          (blocks @
             [ToolUseOut (call_id toolCall) (fn_name (call_function toolCall)) parsedInput],
           logged)
      | Inl error \<Rightarrow>
          (blocks @
             [ToolUseOut (call_id toolCall) (fn_name (call_function toolCall)) empty_object],
           logged @ [(''Failed to parse tool arguments:'', error)]))"

definition convertToAnthropicMessage ::
  "(string \<Rightarrow> 'e + json) \<Rightarrow> chat_completion \<Rightarrow>
   js_error + message \<times> (string \<times> 'e) list" where
  "convertToAnthropicMessage parse completion =
     (case choices completion of
        [] \<Rightarrow> Inl TypeError
      | choice0 # _ \<Rightarrow>
          (let openAiMessage = choice_message choice0;
               anthropicMessage =
                 \<lparr>msg_id = completion_id completion,
                  msg_type = ''message'',
                  msg_role = cm_role openAiMessage,
                  msg_content =
                    [TextOut (case cm_content openAiMessage of
                                None \<Rightarrow> '''' | Some s \<Rightarrow> or_string s '''') None],
                  msg_model = completion_model completion,
                  stop_reason = map_finish_reason (finish_reason choice0),
                  stop_sequence = None,
                  msg_usage =
                    \<lparr>input_tokens =
                       (case usage completion of
                          None \<Rightarrow> 0 | Some u \<Rightarrow> or_number (prompt_tokens u) 0),
                     output_tokens =
                       (case usage completion of
                          None \<Rightarrow> 0 | Some u \<Rightarrow> or_number (completion_tokens u) 0),
                     cache_creation_input_tokens = 0,
                     cache_read_input_tokens = 0\<rparr>\<rparr>
           in case cm_tool_calls openAiMessage of
                None \<Rightarrow> Inr (anthropicMessage, [])
              | Some calls \<Rightarrow>
                  if length calls > 0 then
                    (case foldl (parse_tool_call parse) ([], []) calls of
                       (blocks, logged) \<Rightarrow>
                         Inr (anthropicMessage
                                \<lparr>msg_content := msg_content anthropicMessage @ blocks\<rparr>,
                              logged))
                  else Inr (anthropicMessage, [])))"

subsection \<open>The forward translator on run-time values\<close>

text \<open>
  The input type of \<open>convertToOpenAiMessages\<close> above already excludes every value on which a
  step of the source throws, so that model cannot fail. That no step fails on well-formed
  input is a statement about the values the function meets at run time, where the type
  annotations are gone. Here the same code runs on such values: reading a property of
  \<^verbatim>\<open>undefined\<close> or \<^verbatim>\<open>null\<close> throws a \<^verbatim>\<open>TypeError\<close>, and so does the call of \<^verbatim>\<open>reduce\<close> or
  \<^verbatim>\<open>map\<close> on a value that is not an array.

  An object is the list of its properties, with distinct names. \<open>VBigInt\<close> is there as a
  value \<^verbatim>\<open>JSON.stringify\<close> throws on.
\<close>

datatype js =
    VUndefined
  | VNull
  | VBool bool
  | VNum rat
  | VBigInt int
  | VStr string
  | VArr "js list"
  | VObj "(string \<times> js) list"

text \<open>
  \<open>field\<close> is a property read that cannot throw, \<open>get\<close> the property read of the source.
  A missing property reads as \<^verbatim>\<open>undefined\<close>; none of the names the module reads (\<open>content\<close>,
  \<open>role\<close>, \<open>type\<close>, \<open>text\<close>, \<open>source\<close>, ...) is a built-in property of a string, a number or
  an array.
\<close>

definition field :: "js \<Rightarrow> string \<Rightarrow> js" where
  "field v k =
     (case v of
        VObj props \<Rightarrow> (case map_of props k of None \<Rightarrow> VUndefined | Some x \<Rightarrow> x)
      | _ \<Rightarrow> VUndefined)"

definition get :: "js \<Rightarrow> string \<Rightarrow> js_error + js" where
  "get v k = (if v = VUndefined \<or> v = VNull then Inl TypeError else Inr (field v k))"

text \<open>
  \<^verbatim>\<open>typeof v === "string"\<close>, and the value a method of arrays is called on.
\<close>

definition is_string :: "js \<Rightarrow> bool" where
  "is_string v = (case v of VStr _ \<Rightarrow> True | _ \<Rightarrow> False)"

definition as_array :: "js \<Rightarrow> js_error + js list" where
  "as_array v = (case v of VArr xs \<Rightarrow> Inr xs | _ \<Rightarrow> Inl TypeError)"

text \<open>
  Sequencing: a step that throws ends the whole call. \<open>fold_err\<close> and \<open>map_err\<close> are
  \<^verbatim>\<open>reduce\<close>/\<^verbatim>\<open>forEach\<close> and \<^verbatim>\<open>map\<close> with a callback that may throw.
\<close>

definition and_then :: "'e + 'a \<Rightarrow> ('a \<Rightarrow> 'e + 'b) \<Rightarrow> 'e + 'b" where
  "and_then r f = (case r of Inl e \<Rightarrow> Inl e | Inr x \<Rightarrow> f x)"

fun fold_err :: "('s \<Rightarrow> 'a \<Rightarrow> 'e + 's) \<Rightarrow> 's \<Rightarrow> 'a list \<Rightarrow> 'e + 's" where
  "fold_err f s [] = Inr s"
| "fold_err f s (x # xs) = and_then (f s x) (\<lambda>s'. fold_err f s' xs)"

fun map_err :: "('a \<Rightarrow> 'e + 'b) \<Rightarrow> 'a list \<Rightarrow> 'e + 'b list" where
  "map_err f [] = Inr []"
| "map_err f (x # xs) =
     and_then (f x) (\<lambda>y. and_then (map_err f xs) (\<lambda>ys. Inr (y # ys)))"

text \<open>
  String conversion, in a template literal and in \<^verbatim>\<open>join\<close>: a string is itself, and
  \<^verbatim>\<open>join\<close> writes nothing for \<^verbatim>\<open>undefined\<close> and \<^verbatim>\<open>null\<close>. What the language makes of any
  other value is the parameter \<open>to_string\<close>.
\<close>

definition template :: "(js \<Rightarrow> string) \<Rightarrow> js \<Rightarrow> string" where
  "template to_string v = (case v of VStr s \<Rightarrow> s | _ \<Rightarrow> to_string v)"

definition raw_join :: "(js \<Rightarrow> string) \<Rightarrow> string \<Rightarrow> js list \<Rightarrow> string" where
  "raw_join to_string sep xs =
     join sep (map (\<lambda>v. case v of
                          VUndefined \<Rightarrow> ''''
                        | VNull \<Rightarrow> ''''
                        | VStr s \<Rightarrow> s
                        | _ \<Rightarrow> to_string v) xs)"

text \<open>
  The functions of the source, in its order. The parameter \<open>stringify\<close> is
  \<^verbatim>\<open>JSON.stringify\<close>, which may throw and may return \<^verbatim>\<open>undefined\<close>.
\<close>

definition raw_getImageUrl :: "(js \<Rightarrow> string) \<Rightarrow> js \<Rightarrow> js_error + js" where
  "raw_getImageUrl to_string part =
     and_then (get part ''source'') (\<lambda>source.
     and_then (get source ''type'') (\<lambda>source_type.
       if source_type = VStr ''base64'' then
         and_then (get source ''media_type'') (\<lambda>media_type.
         and_then (get source ''data'') (\<lambda>data.
           Inr (VObj [(''type'', VStr ''image_url''),
                      (''image_url'',
                       VObj [(''url'', VStr (''data:'' @ template to_string media_type @
                                             '';base64,'' @ template to_string data))])])))
       else
         and_then (get source ''url'') (\<lambda>url.
           Inr (VObj [(''type'', VStr ''image_url''),
                      (''image_url'', VObj [(''url'', url)])]))))"

definition raw_user_reducer :: "js list \<times> js list \<Rightarrow> js \<Rightarrow> js_error + js list \<times> js list" where
  "raw_user_reducer acc part =
     and_then (get part ''type'') (\<lambda>part_type.
       case acc of (nonToolMessages, toolMessages) \<Rightarrow>
         if part_type = VStr ''tool_result'' then Inr (nonToolMessages, toolMessages @ [part])
         else if part_type = VStr ''text'' \<or> part_type = VStr ''image''
         then Inr (nonToolMessages @ [part], toolMessages)
         else Inr (nonToolMessages, toolMessages))"

definition raw_assistant_reducer ::
  "js list \<times> js list \<Rightarrow> js \<Rightarrow> js_error + js list \<times> js list" where
  "raw_assistant_reducer acc part =
     and_then (get part ''type'') (\<lambda>part_type.
       case acc of (nonToolMessages, toolMessages) \<Rightarrow>
         if part_type = VStr ''tool_use'' then Inr (nonToolMessages, toolMessages @ [part])
         else if part_type = VStr ''text'' \<or> part_type = VStr ''image''
         then Inr (nonToolMessages @ [part], toolMessages)
         else Inr (nonToolMessages, toolMessages))"

definition raw_result_part :: "js list \<times> js list \<Rightarrow> js \<Rightarrow> js_error + js list \<times> js list" where
  "raw_result_part acc part =
     and_then (get part ''type'') (\<lambda>part_type.
       case acc of (strs, toolResultImages) \<Rightarrow>
         if part_type = VStr ''image''
         then Inr (strs @ [VStr placeholder], toolResultImages @ [part])
         else and_then (get part ''text'') (\<lambda>t. Inr (strs @ [t], toolResultImages)))"

definition raw_tool_result_string ::
  "(js \<Rightarrow> string) \<Rightarrow> js list \<Rightarrow> js \<Rightarrow> js_error + js \<times> js list" where
  "raw_tool_result_string to_string toolResultImages c =
     (if is_string c then Inr (c, toolResultImages)
      else if c = VUndefined \<or> c = VNull then Inr (VStr '''', toolResultImages)
      else
        and_then (as_array c) (\<lambda>parts.
        and_then (fold_err raw_result_part ([], toolResultImages) parts) (\<lambda>(strs, imgs).
          Inr (VStr (raw_join to_string newline strs), imgs))))"

definition raw_push_tool_message ::
  "(js \<Rightarrow> string) \<Rightarrow> js list \<times> js list \<Rightarrow> js \<Rightarrow> js_error + js list \<times> js list" where
  "raw_push_tool_message to_string acc toolMessage =
     (case acc of (openAiMessages, toolResultImages) \<Rightarrow>
        and_then (get toolMessage ''content'') (\<lambda>c.
        and_then (raw_tool_result_string to_string toolResultImages c) (\<lambda>(s, imgs).
        and_then (get toolMessage ''tool_use_id'') (\<lambda>tool_use_id.
          Inr (openAiMessages @
                 [VObj [(''role'', VStr ''tool''), (''tool_call_id'', tool_use_id),
                        (''content'', s)]],
               imgs)))))"

definition raw_user_part :: "(js \<Rightarrow> string) \<Rightarrow> js \<Rightarrow> js_error + js" where
  "raw_user_part to_string part =
     and_then (get part ''type'') (\<lambda>part_type.
       if part_type = VStr ''image'' then raw_getImageUrl to_string part
       else and_then (get part ''text'') (\<lambda>t.
              Inr (VObj [(''type'', VStr ''text''), (''text'', t)])))"

definition raw_assistant_part :: "js \<Rightarrow> js_error + js" where
  "raw_assistant_part part =
     and_then (get part ''type'') (\<lambda>part_type.
       if part_type = VStr ''image'' then Inr (VStr '''') else get part ''text'')"

definition raw_to_tool_call :: "(js \<Rightarrow> js_error + js) \<Rightarrow> js \<Rightarrow> js_error + js" where
  "raw_to_tool_call stringify toolMessage =
     and_then (get toolMessage ''id'') (\<lambda>call_id.
     and_then (get toolMessage ''name'') (\<lambda>name.
     and_then (get toolMessage ''input'') (\<lambda>input.
     and_then (stringify input) (\<lambda>arguments.
       Inr (VObj [(''id'', call_id), (''type'', VStr ''function''),
                  (''function'', VObj [(''name'', name), (''arguments'', arguments)])])))))"

definition raw_convert_turn ::
  "(js \<Rightarrow> js_error + js) \<Rightarrow> (js \<Rightarrow> string) \<Rightarrow> js list \<Rightarrow> js \<Rightarrow> js_error + js list" where
  "raw_convert_turn stringify to_string openAiMessages anthropicMessage =
     and_then (get anthropicMessage ''content'') (\<lambda>c.
       if is_string c then
         and_then (get anthropicMessage ''role'') (\<lambda>r.
           Inr (openAiMessages @ [VObj [(''role'', r), (''content'', c)]]))
       else
         and_then (get anthropicMessage ''role'') (\<lambda>r.
           if r = VStr ''user'' then
             and_then (as_array c) (\<lambda>blocks.
             and_then (fold_err raw_user_reducer ([], []) blocks)
               (\<lambda>(nonToolMessages, toolMessages).
             and_then (fold_err (raw_push_tool_message to_string) (openAiMessages, [])
                         toolMessages)
               (\<lambda>(pushed, toolResultImages).
                 if length nonToolMessages > 0 then
                   and_then (map_err (raw_user_part to_string) nonToolMessages) (\<lambda>parts.
                     Inr (pushed @ [VObj [(''role'', VStr ''user''), (''content'', VArr parts)]]))
                 else Inr pushed)))
           else if r = VStr ''assistant'' then
             and_then (as_array c) (\<lambda>blocks.
             and_then (fold_err raw_assistant_reducer ([], []) blocks)
               (\<lambda>(nonToolMessages, toolMessages).
             and_then (if length nonToolMessages > 0
                       then and_then (map_err raw_assistant_part nonToolMessages) (\<lambda>strs.
                              Inr (VStr (raw_join to_string newline strs)))
                       else Inr VUndefined)
               (\<lambda>content_str.
             and_then (map_err (raw_to_tool_call stringify) toolMessages) (\<lambda>calls.
               Inr (openAiMessages @
                      [VObj [(''role'', VStr ''assistant''), (''content'', content_str),
                             (''tool_calls'',
                              if length calls > 0 then VArr calls else VUndefined)]])))))
           else Inr openAiMessages))"

definition raw_convertToOpenAiMessages ::
  "(js \<Rightarrow> js_error + js) \<Rightarrow> (js \<Rightarrow> string) \<Rightarrow> js list \<Rightarrow> js_error + js list" where
  "raw_convertToOpenAiMessages stringify to_string anthropicMessages =
     fold_err (raw_convert_turn stringify to_string) [] anthropicMessages"

subsection \<open>What the specification says, as functions of the input blocks\<close>

text \<open>The blocks of each kind, in their original order.\<close>

definition tool_results_of :: "content_block list \<Rightarrow> tool_result_block list" where
  "tool_results_of bs = [t. ToolResult t \<leftarrow> bs]"

definition plain_of :: "content_block list \<Rightarrow> text_or_image list" where
  "plain_of bs = [p. Plain p \<leftarrow> bs]"

definition tool_uses_of :: "content_block list \<Rightarrow> tool_use_block list" where
  "tool_uses_of bs = [u. ToolUse u \<leftarrow> bs]"

text \<open>The string a tool result is reduced to, and the images met on the way.\<close>

fun part_text :: "text_or_image \<Rightarrow> string" where
  "part_text (TextBlock text) = text"
| "part_text (ImageBlock _) = placeholder"

definition images_of :: "text_or_image list \<Rightarrow> image_source list" where
  "images_of parts = [src. ImageBlock src \<leftarrow> parts]"

fun result_text :: "tool_result_content option \<Rightarrow> string" where
  "result_text None = ''''"
| "result_text (Some (ResultString s)) = s"
| "result_text (Some (ResultBlocks parts)) = join newline (map part_text parts)"

fun result_images :: "tool_result_content option \<Rightarrow> image_source list" where
  "result_images (Some (ResultBlocks parts)) = images_of parts"
| "result_images _ = []"

text \<open>The URLs of the image parts a format-B turn carries.\<close>

fun part_urls :: "content_part \<Rightarrow> string list" where
  "part_urls (ImageUrlPart u) = [u]"
| "part_urls (TextPart _) = []"

fun image_urls :: "chat_message \<Rightarrow> string list" where
  "image_urls m =
     (case chat_content m of
        Some (ContentParts ps) \<Rightarrow> concat (map part_urls ps)
      | _ \<Rightarrow> [])"

text \<open>
  The turn one tool-result block becomes, and the turns one input turn adds to the output.
\<close>

definition tool_turn :: "tool_result_block \<Rightarrow> chat_message" where
  "tool_turn t =
     \<lparr>chat_role = ''tool'', chat_content = Some (ContentString (result_text (result_content t))),
      tool_call_id = Some (tool_use_id t), tool_calls = None\<rparr>"

definition emit :: "(json \<Rightarrow> string) \<Rightarrow> message_param \<Rightarrow> chat_message list" where
  "emit stringify m = convert_turn stringify [] m"

text \<open>
  The URL of an image part: a \<open>data:\<close> URI for a base64 source, the source's URL otherwise;
  and the part a text or image block of a user turn becomes.
\<close>

fun image_url_of :: "image_source \<Rightarrow> string" where
  "image_url_of (Base64Source media_type d) = ''data:'' @ media_type @ '';base64,'' @ d"
| "image_url_of (UrlSource u) = u"

fun spec_part :: "text_or_image \<Rightarrow> content_part" where
  "spec_part (TextBlock text) = TextPart text"
| "spec_part (ImageBlock src) = ImageUrlPart (image_url_of src)"

text \<open>
  The URLs of the image blocks that stand directly in a user turn's block sequence: the
  images inside tool results are not among them.
\<close>

fun top_level_image_urls :: "message_param \<Rightarrow> string list" where
  "top_level_image_urls m =
     (case content m of
        StringContent _ \<Rightarrow> []
      | BlockContent bs \<Rightarrow>
          if role m = ''user'' then map image_url_of (images_of (plain_of bs)) else [])"

text \<open>
  The reverse direction, call by call: the string handed to \<open>parse\<close> (the empty string is
  replaced by \<open>{}\<close>), the block built, and what is written to the diagnostic sink.
\<close>

definition effective_arguments :: "tool_call \<Rightarrow> string" where
  "effective_arguments tc =
     (if fn_arguments (call_function tc) = [] then ''{}'' else fn_arguments (call_function tc))"

definition parsed_block :: "(string \<Rightarrow> 'e + json) \<Rightarrow> tool_call \<Rightarrow> response_block" where
  "parsed_block parse tc =
     ToolUseOut (call_id tc) (fn_name (call_function tc))
       (case parse (effective_arguments tc) of Inr v \<Rightarrow> v | Inl _ \<Rightarrow> JObject [])"

definition parse_log :: "(string \<Rightarrow> 'e + json) \<Rightarrow> tool_call \<Rightarrow> (string \<times> 'e) list" where
  "parse_log parse tc =
     (case parse (effective_arguments tc) of
        Inr _ \<Rightarrow> []
      | Inl e \<Rightarrow> [(''Failed to parse tool arguments:'', e)])"

definition calls_of :: "choice \<Rightarrow> tool_call list" where
  "calls_of ch = (case cm_tool_calls (choice_message ch) of None \<Rightarrow> [] | Some calls \<Rightarrow> calls)"

definition text_of :: "choice \<Rightarrow> string" where
  "text_of ch = (case cm_content (choice_message ch) of None \<Rightarrow> '''' | Some s \<Rightarrow> s)"

subsection \<open>The data model as run-time values\<close>

text \<open>
  A well-formed conversation is one of the typed model, written as the objects and
  arrays it is at run time; and an object of the output is read back as a turn of the
  typed model, a property that is missing or \<^verbatim>\<open>undefined\<close> being an absent field.
\<close>

primrec of_json :: "json \<Rightarrow> js" where
  "of_json JNull = VNull"
| "of_json (JBool b) = VBool b"
| "of_json (JNumber n) = VNum n"
| "of_json (JString s) = VStr s"
| "of_json (JArray xs) = VArr (map of_json xs)"
| "of_json (JObject props) = VObj (map (map_prod id of_json) props)"

fun enc_source :: "image_source \<Rightarrow> js" where
  "enc_source (Base64Source media_type d) =
     VObj [(''type'', VStr ''base64''), (''media_type'', VStr media_type), (''data'', VStr d)]"
| "enc_source (UrlSource u) = VObj [(''type'', VStr ''url''), (''url'', VStr u)]"

fun enc_plain :: "text_or_image \<Rightarrow> js" where
  "enc_plain (TextBlock s) = VObj [(''type'', VStr ''text''), (''text'', VStr s)]"
| "enc_plain (ImageBlock src) = VObj [(''type'', VStr ''image''), (''source'', enc_source src)]"

fun enc_result_content :: "tool_result_content option \<Rightarrow> (string \<times> js) list" where
  "enc_result_content None = []"
| "enc_result_content (Some (ResultString s)) = [(''content'', VStr s)]"
| "enc_result_content (Some (ResultBlocks parts)) = [(''content'', VArr (map enc_plain parts))]"

definition enc_tool_result :: "tool_result_block \<Rightarrow> js" where
  "enc_tool_result t =
     VObj ([(''type'', VStr ''tool_result''), (''tool_use_id'', VStr (tool_use_id t))] @
           enc_result_content (result_content t))"

definition enc_tool_use :: "tool_use_block \<Rightarrow> js" where
  "enc_tool_use u =
     VObj [(''type'', VStr ''tool_use''), (''id'', VStr (use_id u)),
           (''name'', VStr (use_name u)), (''input'', of_json (use_input u))]"

fun enc_block :: "content_block \<Rightarrow> js" where
  "enc_block (Plain p) = enc_plain p"
| "enc_block (ToolUse u) = enc_tool_use u"
| "enc_block (ToolResult t) = enc_tool_result t"

fun enc_content :: "message_content \<Rightarrow> js" where
  "enc_content (StringContent s) = VStr s"
| "enc_content (BlockContent blocks) = VArr (map enc_block blocks)"

definition enc_message :: "message_param \<Rightarrow> js" where
  "enc_message m = VObj [(''role'', VStr (role m)), (''content'', enc_content (content m))]"

definition read_string :: "js \<Rightarrow> string" where
  "read_string v = (case v of VStr s \<Rightarrow> s | _ \<Rightarrow> '''')"

definition read_part :: "js \<Rightarrow> content_part" where
  "read_part p =
     (if field p ''type'' = VStr ''text'' then TextPart (read_string (field p ''text''))
      else ImageUrlPart (read_string (field (field p ''image_url'') ''url'')))"

definition read_call :: "js \<Rightarrow> tool_call" where
  "read_call c =
     \<lparr>call_id = read_string (field c ''id''), call_type = read_string (field c ''type''),
      call_function =
        \<lparr>fn_name = read_string (field (field c ''function'') ''name''),
         fn_arguments = read_string (field (field c ''function'') ''arguments'')\<rparr>\<rparr>"

definition read_message :: "js \<Rightarrow> chat_message" where
  "read_message v =
     \<lparr>chat_role = read_string (field v ''role''),
      chat_content =
        (case field v ''content'' of
           VStr s \<Rightarrow> Some (ContentString s)
         | VArr parts \<Rightarrow> Some (ContentParts (map read_part parts))
         | _ \<Rightarrow> None),
      tool_call_id = (case field v ''tool_call_id'' of VStr s \<Rightarrow> Some s | _ \<Rightarrow> None),
      tool_calls =
        (case field v ''tool_calls'' of
           VArr calls \<Rightarrow> Some (map read_call calls)
         | _ \<Rightarrow> None)\<rparr>"

subsection \<open>Sample library functions for the examples\<close>

text \<open>
  The theorems hold for every \<open>stringify\<close>, \<open>parse\<close> and \<open>to_string\<close>. The examples need
  concrete ones: these agree with \<^verbatim>\<open>JSON.stringify\<close>, \<^verbatim>\<open>JSON.parse\<close> and the language's string
  conversion on the values and strings the examples use (\<^verbatim>\<open>JSON.parse\<close> reads \<open>{}\<close> as the
  empty object and \<open>[1]\<close> as an array, and throws a \<^verbatim>\<open>SyntaxError\<close> on the empty string and
  on \<open>not json\<close>; \<^verbatim>\<open>JSON.stringify\<close> writes the empty object as \<open>{}\<close>, returns \<^verbatim>\<open>undefined\<close>
  for \<^verbatim>\<open>undefined\<close> and throws a \<^verbatim>\<open>TypeError\<close> on a BigInt).
\<close>

definition stringify_sample :: "json \<Rightarrow> string" where
  "stringify_sample j = (if j = JObject [] then ''{}'' else ''null'')"

definition parse_sample :: "string \<Rightarrow> string + json" where
  "parse_sample s =
     (if s = ''{}'' then Inr (JObject [])
      else if s = ''[1]'' then Inr (JArray [JNumber 1])
      else Inl ''SyntaxError'')"

definition stringify_raw_sample :: "js \<Rightarrow> js_error + js" where
  "stringify_raw_sample v =
     (case v of
        VUndefined \<Rightarrow> Inr VUndefined
      | VBigInt _ \<Rightarrow> Inl TypeError
      | VObj [] \<Rightarrow> Inr (VStr ''{}'')
      | _ \<Rightarrow> Inr (VStr ''null''))"

definition to_string_sample :: "js \<Rightarrow> string" where
  "to_string_sample v =
     (case v of
        VUndefined \<Rightarrow> ''undefined''
      | VNull \<Rightarrow> ''null''
      | VBool b \<Rightarrow> (if b then ''true'' else ''false'')
      | VStr s \<Rightarrow> s
      | _ \<Rightarrow> ''[object Object]'')"

section \<open>The loops in closed form\<close>

lemma foldl_user_reducer:
  "foldl user_reducer (ps, ts) bs = (ps @ plain_of bs, ts @ tool_results_of bs)"
proof (induction bs arbitrary: ps ts)
  case Nil
  show ?case by (simp add: plain_of_def tool_results_of_def)
next
  case (Cons b bs)
  show ?case
    by (cases b) (simp_all add: Cons.IH plain_of_def tool_results_of_def)
qed

lemma foldl_assistant_reducer:
  "foldl assistant_reducer (ps, us) bs = (ps @ plain_of bs, us @ tool_uses_of bs)"
proof (induction bs arbitrary: ps us)
  case Nil
  show ?case by (simp add: plain_of_def tool_uses_of_def)
next
  case (Cons b bs)
  show ?case
    by (cases b) (simp_all add: Cons.IH plain_of_def tool_uses_of_def)
qed

lemma foldl_result_part:
  "foldl result_part (strs, imgs) parts = (strs @ map part_text parts, imgs @ images_of parts)"
proof (induction parts arbitrary: strs imgs)
  case Nil
  show ?case by (simp add: images_of_def)
next
  case (Cons p parts)
  show ?case
    by (cases p) (simp_all add: Cons.IH images_of_def)
qed

lemma tool_result_string_eq:
  "tool_result_string imgs c = (result_text c, imgs @ result_images c)"
proof (cases c)
  case None
  then show ?thesis by simp
next
  case (Some r)
  then show ?thesis by (cases r) (simp_all add: foldl_result_part)
qed

lemma foldl_push_tool_message:
  "foldl push_tool_message (acc, imgs) ts =
     (acc @ map tool_turn ts, imgs @ concat (map (\<lambda>t. result_images (result_content t)) ts))"
  by (induction ts arbitrary: acc imgs) (simp_all add: tool_result_string_eq tool_turn_def)

text \<open>
  Every turn appends to the output and never reads it: the translation of a conversation
  is the concatenation of the translations of its turns.
\<close>

lemma convert_turn_append:
  "convert_turn stringify acc m = acc @ emit stringify m"
  by (simp add: convert_turn_def emit_def foldl_user_reducer foldl_assistant_reducer
      foldl_push_tool_message Let_def split: message_content.split)

lemma foldl_convert_turn:
  "foldl (convert_turn stringify) acc ms = acc @ concat (map (emit stringify) ms)"
proof (induction ms arbitrary: acc)
  case Nil
  show ?case by simp
next
  case (Cons m ms)
  show ?case by (simp add: Cons.IH convert_turn_append [of _ acc])
qed

lemma convertToOpenAiMessages_concat:
  "convertToOpenAiMessages stringify ms = concat (map (emit stringify) ms)"
  by (simp add: convertToOpenAiMessages_def foldl_convert_turn)

lemma convert_append:
  "convertToOpenAiMessages stringify (xs @ ys) =
     convertToOpenAiMessages stringify xs @ convertToOpenAiMessages stringify ys"
  by (simp add: convertToOpenAiMessages_concat)

lemma convert_Cons:
  "convertToOpenAiMessages stringify (m # ms) =
     emit stringify m @ convertToOpenAiMessages stringify ms"
  by (simp add: convertToOpenAiMessages_concat)

lemma emit_string:
  "emit stringify \<lparr>role = r, content = StringContent s\<rparr> =
     [\<lparr>chat_role = r, chat_content = Some (ContentString s),
       tool_call_id = None, tool_calls = None\<rparr>]"
  by (simp add: emit_def convert_turn_def)

lemma emit_user_blocks:
  "emit stringify \<lparr>role = ''user'', content = BlockContent bs\<rparr> =
     map tool_turn (tool_results_of bs) @
     (if plain_of bs = [] then []
      else [\<lparr>chat_role = ''user'', chat_content = Some (ContentParts (map user_part (plain_of bs))),
             tool_call_id = None, tool_calls = None\<rparr>])"
  by (simp add: emit_def convert_turn_def foldl_user_reducer foldl_push_tool_message)

lemma emit_assistant_blocks:
  "emit stringify \<lparr>role = ''assistant'', content = BlockContent bs\<rparr> =
     [\<lparr>chat_role = ''assistant'',
       chat_content =
         (if plain_of bs = [] then None
          else Some (ContentString (join newline (map assistant_part (plain_of bs))))),
       tool_call_id = None,
       tool_calls =
         (if tool_uses_of bs = [] then None
          else Some (map (to_tool_call stringify) (tool_uses_of bs)))\<rparr>]"
  by (simp add: emit_def convert_turn_def foldl_assistant_reducer Let_def)

lemma image_urls_tool_turn: "image_urls (tool_turn t) = []"
  by (simp add: tool_turn_def)

lemma part_urls_user_part:
  "concat (map part_urls (map user_part ps)) = map image_url_of (images_of ps)"
proof (induction ps)
  case Nil
  show ?case by (simp add: images_of_def)
next
  case (Cons p ps)
  have step: "images_of (p # ps) = images_of [p] @ images_of ps"
    by (simp add: images_of_def)
  show ?case
  proof (cases p)
    case (TextBlock s)
    with Cons show ?thesis by (simp add: images_of_def)
  next
    case (ImageBlock src)
    with Cons show ?thesis by (cases src) (simp_all add: images_of_def)
  qed
qed

lemma image_urls_emit:
  "concat (map image_urls (emit stringify m)) = top_level_image_urls m"
proof (cases m)
  case (fields r c)
  show ?thesis
  proof (cases c)
    case (StringContent s)
    with fields show ?thesis by (simp add: emit_string)
  next
    case (BlockContent bs)
    have tools: "concat (map image_urls (map tool_turn ts)) = []" for ts
      by (induction ts) (simp_all add: tool_turn_def)
    consider (user) "r = ''user''" | (assistant) "r = ''assistant''"
      | (other) "r \<noteq> ''user''" "r \<noteq> ''assistant''"
      by blast
    then show ?thesis
    proof cases
      case user
      with fields BlockContent show ?thesis
        using part_urls_user_part [of "plain_of bs"]
        by (simp add: emit_user_blocks tool_turn_def images_of_def)
    next
      case assistant
      with fields BlockContent show ?thesis
        by (simp add: emit_assistant_blocks)
    next
      case other
      with fields BlockContent show ?thesis
        by (simp add: emit_def convert_turn_def)
    qed
  qed
qed

lemma image_urls_convert:
  "concat (map image_urls (convertToOpenAiMessages stringify ms)) =
     concat (map top_level_image_urls ms)"
  by (induction ms)
    (simp_all add: convertToOpenAiMessages_concat image_urls_emit
      del: image_urls.simps top_level_image_urls.simps)

text \<open>
  The reverse translator returns a message whenever the completion has a first choice,
  and throws when it has none.
\<close>

lemma foldl_parse_tool_call:
  "foldl (parse_tool_call parse) (blocks, logged) calls =
     (blocks @ map (parsed_block parse) calls, logged @ concat (map (parse_log parse) calls))"
proof (induction calls arbitrary: blocks logged)
  case Nil
  show ?case by simp
next
  case (Cons tc calls)
  show ?case
    by (cases "parse (effective_arguments tc)")
      (simp_all add: Cons.IH parsed_block_def parse_log_def effective_arguments_def
        or_string_def empty_object_def)
qed

lemma convertToAnthropicMessage_value:
  assumes "choices c = ch # rest"
  shows "convertToAnthropicMessage parse c =
     Inr (\<lparr>msg_id = completion_id c, msg_type = ''message'',
           msg_role = cm_role (choice_message ch),
           msg_content = TextOut (text_of ch) None # map (parsed_block parse) (calls_of ch),
           msg_model = completion_model c,
           stop_reason = map_finish_reason (finish_reason ch),
           stop_sequence = None,
           msg_usage =
             \<lparr>input_tokens = (case usage c of None \<Rightarrow> 0 | Some u \<Rightarrow> prompt_tokens u),
              output_tokens = (case usage c of None \<Rightarrow> 0 | Some u \<Rightarrow> completion_tokens u),
              cache_creation_input_tokens = 0, cache_read_input_tokens = 0\<rparr>\<rparr>,
          concat (map (parse_log parse) (calls_of ch)))"
proof -
  have t: "(case cm_content (choice_message ch) of None \<Rightarrow> '''' | Some s \<Rightarrow> or_string s '''') =
           text_of ch"
    by (simp add: text_of_def or_string_def split: option.split)
  have u: "(case usage c of None \<Rightarrow> 0 | Some u \<Rightarrow> or_number (f u) 0) =
           (case usage c of None \<Rightarrow> 0 | Some u \<Rightarrow> f u)" for f
    by (simp add: or_number_def split: option.split)
  show ?thesis
  proof (cases "cm_tool_calls (choice_message ch)")
    case None
    with assms show ?thesis
      by (simp add: convertToAnthropicMessage_def t u calls_of_def)
  next
    case (Some calls)
    with assms show ?thesis
      by (cases calls)
        (simp_all add: convertToAnthropicMessage_def t u calls_of_def foldl_parse_tool_call
          del: foldl_Cons)
  qed
qed

lemma convertToAnthropicMessage_no_choice:
  "choices c = [] \<Longrightarrow> convertToAnthropicMessage parse c = Inl TypeError"
  by (simp add: convertToAnthropicMessage_def)

section \<open>The run-time model on well-formed input\<close>

text \<open>
  On the values of the data model every step of the run-time model returns, and what it
  returns reads back as the result of the typed model.
\<close>

lemma and_then_Inr [simp]: "and_then (Inr x) f = f x"
  by (simp add: and_then_def)

lemma and_then_Inl [simp]: "and_then (Inl e) f = Inl e"
  by (simp add: and_then_def)

lemma get_VObj [simp]: "get (VObj props) k = Inr (field (VObj props) k)"
  by (simp add: get_def)

lemma field_Cons [simp]:
  "field (VObj ((k', v) # props)) k = (if k = k' then v else field (VObj props) k)"
  by (simp add: field_def)

lemma field_Nil [simp]: "field (VObj []) k = VUndefined"
  by (simp add: field_def)

lemma raw_join_strings:
  "raw_join to_string sep (map (VStr \<circ> f) xs) = join sep (map f xs)"
  by (simp add: raw_join_def comp_def)

lemma raw_user_reducer_enc:
  "raw_user_reducer (ps, ts) (enc_block b) =
     Inr (ps @ map enc_plain (plain_of [b]), ts @ map enc_tool_result (tool_results_of [b]))"
proof (cases b)
  case (Plain p)
  then show ?thesis
    by (cases p) (simp_all add: raw_user_reducer_def plain_of_def tool_results_of_def)
next
  case (ToolUse u)
  then show ?thesis
    by (simp add: raw_user_reducer_def plain_of_def tool_results_of_def enc_tool_use_def)
next
  case (ToolResult t)
  then show ?thesis
    by (simp add: raw_user_reducer_def plain_of_def tool_results_of_def enc_tool_result_def)
qed

lemma plain_of_Cons: "plain_of (b # bs) = plain_of [b] @ plain_of bs"
  by (simp add: plain_of_def)

lemma tool_results_of_Cons: "tool_results_of (b # bs) = tool_results_of [b] @ tool_results_of bs"
  by (simp add: tool_results_of_def)

lemma tool_uses_of_Cons: "tool_uses_of (b # bs) = tool_uses_of [b] @ tool_uses_of bs"
  by (simp add: tool_uses_of_def)

lemma fold_raw_user_reducer:
  "fold_err raw_user_reducer (ps, ts) (map enc_block bs) =
     Inr (ps @ map enc_plain (plain_of bs), ts @ map enc_tool_result (tool_results_of bs))"
proof (induction bs arbitrary: ps ts)
  case Nil
  show ?case by (simp add: plain_of_def tool_results_of_def)
next
  case (Cons b bs)
  show ?case
    by (simp add: raw_user_reducer_enc Cons.IH plain_of_Cons [of b bs]
        tool_results_of_Cons [of b bs])
qed

lemma raw_assistant_reducer_enc:
  "raw_assistant_reducer (ps, us) (enc_block b) =
     Inr (ps @ map enc_plain (plain_of [b]), us @ map enc_tool_use (tool_uses_of [b]))"
proof (cases b)
  case (Plain p)
  then show ?thesis
    by (cases p) (simp_all add: raw_assistant_reducer_def plain_of_def tool_uses_of_def)
next
  case (ToolUse u)
  then show ?thesis
    by (simp add: raw_assistant_reducer_def plain_of_def tool_uses_of_def enc_tool_use_def)
next
  case (ToolResult t)
  then show ?thesis
    by (simp add: raw_assistant_reducer_def plain_of_def tool_uses_of_def
        enc_tool_result_def)
qed

lemma fold_raw_assistant_reducer:
  "fold_err raw_assistant_reducer (ps, us) (map enc_block bs) =
     Inr (ps @ map enc_plain (plain_of bs), us @ map enc_tool_use (tool_uses_of bs))"
proof (induction bs arbitrary: ps us)
  case Nil
  show ?case by (simp add: plain_of_def tool_uses_of_def)
next
  case (Cons b bs)
  show ?case
    by (simp add: raw_assistant_reducer_enc Cons.IH plain_of_Cons [of b bs]
        tool_uses_of_Cons [of b bs])
qed

lemma fold_raw_result_part:
  "\<exists>imgs'. fold_err raw_result_part (strs, imgs) (map enc_plain parts) =
             Inr (strs @ map VStr (map part_text parts), imgs')"
proof (induction parts arbitrary: strs imgs)
  case Nil
  show ?case by simp
next
  case (Cons p parts)
  show ?case
  proof (cases p)
    case (TextBlock s)
    with Cons.IH [of "strs @ [VStr s]" imgs] show ?thesis
      by (simp add: raw_result_part_def)
  next
    case (ImageBlock src)
    with Cons.IH [of "strs @ [VStr placeholder]" "imgs @ [enc_plain p]"] show ?thesis
      by (simp add: raw_result_part_def)
  qed
qed

lemma raw_push_tool_message_enc:
  "\<exists>v imgs'. raw_push_tool_message to_string (out, imgs) (enc_tool_result t) =
                Inr (out @ [v], imgs') \<and> read_message v = tool_turn t"
proof (cases "result_content t")
  case None
  then show ?thesis
    by (simp add: raw_push_tool_message_def enc_tool_result_def raw_tool_result_string_def
        is_string_def as_array_def read_message_def read_string_def tool_turn_def)
next
  case (Some c)
  show ?thesis
  proof (cases c)
    case (ResultString s)
    with Some show ?thesis
      by (simp add: raw_push_tool_message_def enc_tool_result_def raw_tool_result_string_def
        is_string_def as_array_def read_message_def read_string_def tool_turn_def)
  next
    case (ResultBlocks parts)
    obtain imgs' where
      "fold_err raw_result_part ([], imgs) (map enc_plain parts) =
         Inr (map VStr (map part_text parts), imgs')"
      using fold_raw_result_part [of "[]" imgs parts] by auto
    with Some ResultBlocks show ?thesis
      by (simp add: raw_push_tool_message_def enc_tool_result_def raw_tool_result_string_def
        is_string_def as_array_def read_message_def read_string_def tool_turn_def
        raw_join_strings)
  qed
qed

lemma fold_raw_push_tool_message:
  "\<exists>vs imgs'. fold_err (raw_push_tool_message to_string) (out, imgs) (map enc_tool_result ts) =
                 Inr (out @ vs, imgs') \<and> map read_message vs = map tool_turn ts"
proof (induction ts arbitrary: out imgs)
  case Nil
  show ?case by simp
next
  case (Cons t ts)
  obtain v imgs1 where 1:
    "raw_push_tool_message to_string (out, imgs) (enc_tool_result t) = Inr (out @ [v], imgs1)"
    "read_message v = tool_turn t"
    using raw_push_tool_message_enc [of to_string out imgs t] by blast
  obtain vs imgs2 where 2:
    "fold_err (raw_push_tool_message to_string) (out @ [v], imgs1) (map enc_tool_result ts) =
       Inr ((out @ [v]) @ vs, imgs2)"
    "map read_message vs = map tool_turn ts"
    using Cons.IH [of "out @ [v]" imgs1] by blast
  have "fold_err (raw_push_tool_message to_string) (out, imgs) (map enc_tool_result (t # ts)) =
          Inr (out @ (v # vs), imgs2)"
    using 1(1) 2(1) by simp
  moreover have "map read_message (v # vs) = map tool_turn (t # ts)"
    using 1(2) 2(2) by simp
  ultimately show ?case by blast
qed

lemma raw_user_part_enc:
  "\<exists>v. raw_user_part to_string (enc_plain p) = Inr v \<and> read_part v = user_part p"
proof (cases p)
  case (TextBlock s)
  then show ?thesis
    by (simp add: raw_user_part_def read_part_def read_string_def)
next
  case (ImageBlock src)
  then show ?thesis
    by (cases src)
      (simp_all add: raw_user_part_def raw_getImageUrl_def template_def
        read_part_def read_string_def)
qed

lemma map_raw_user_part:
  "\<exists>vs. map_err (raw_user_part to_string) (map enc_plain ps) = Inr vs \<and>
         map read_part vs = map user_part ps"
proof (induction ps)
  case Nil
  show ?case by simp
next
  case (Cons p ps)
  obtain v where 1: "raw_user_part to_string (enc_plain p) = Inr v" "read_part v = user_part p"
    using raw_user_part_enc by blast
  obtain vs where 2: "map_err (raw_user_part to_string) (map enc_plain ps) = Inr vs"
    "map read_part vs = map user_part ps"
    using Cons.IH by blast
  have "map_err (raw_user_part to_string) (map enc_plain (p # ps)) = Inr (v # vs)"
    using 1(1) 2(1) by simp
  moreover have "map read_part (v # vs) = map user_part (p # ps)"
    using 1(2) 2(2) by simp
  ultimately show ?case by blast
qed

lemma map_raw_assistant_part:
  "map_err raw_assistant_part (map enc_plain ps) = Inr (map VStr (map assistant_part ps))"
proof (induction ps)
  case Nil
  show ?case by simp
next
  case (Cons p ps)
  then show ?case by (cases p) (simp_all add: raw_assistant_part_def)
qed

lemma map_raw_to_tool_call:
  assumes "\<forall>j. stringify_raw (of_json j) = Inr (VStr (stringify j))"
  shows "\<exists>vs. map_err (raw_to_tool_call stringify_raw) (map enc_tool_use us) = Inr vs \<and>
              length vs = length us \<and>
              map read_call vs = map (to_tool_call stringify) us"
proof (induction us)
  case Nil
  show ?case by simp
next
  case (Cons u us)
  obtain vs where 2: "map_err (raw_to_tool_call stringify_raw) (map enc_tool_use us) = Inr vs"
    "length vs = length us" "map read_call vs = map (to_tool_call stringify) us"
    using Cons.IH by blast
  let ?v = "VObj [(''id'', VStr (use_id u)), (''type'', VStr ''function''),
                  (''function'', VObj [(''name'', VStr (use_name u)),
                                       (''arguments'', VStr (stringify (use_input u)))])]"
  have 1: "raw_to_tool_call stringify_raw (enc_tool_use u) = Inr ?v"
    using assms by (simp add: raw_to_tool_call_def enc_tool_use_def)
  have 3: "read_call ?v = to_tool_call stringify u"
    by (simp add: read_call_def read_string_def to_tool_call_def)
  have "map_err (raw_to_tool_call stringify_raw) (map enc_tool_use (u # us)) = Inr (?v # vs)"
    using 1 2(1) by simp
  moreover have "map read_call (?v # vs) = map (to_tool_call stringify) (u # us)"
    using 3 2(3) by simp
  moreover have "length (?v # vs) = length (u # us)"
    using 2(2) by simp
  ultimately show ?case by blast
qed

lemma raw_convert_turn_enc:
  assumes "\<forall>j. stringify_raw (of_json j) = Inr (VStr (stringify j))"
  shows "\<exists>vs. raw_convert_turn stringify_raw to_string out (enc_message m) = Inr (out @ vs) \<and>
              map read_message vs = emit stringify m"
proof (cases m)
  case (fields r c)
  show ?thesis
  proof (cases c)
    case (StringContent s)
    with fields show ?thesis
      by (simp add: raw_convert_turn_def is_string_def enc_message_def emit_string
        read_message_def read_string_def)
  next
    case (BlockContent bs)
    consider (user) "r = ''user''" | (assistant) "r = ''assistant''"
      | (other) "r \<noteq> ''user''" "r \<noteq> ''assistant''"
      by blast
    then show ?thesis
    proof cases
      case user
      obtain vs imgs' where t:
        "fold_err (raw_push_tool_message to_string) (out, [])
           (map enc_tool_result (tool_results_of bs)) = Inr (out @ vs, imgs')"
        "map read_message vs = map tool_turn (tool_results_of bs)"
        using fold_raw_push_tool_message [of to_string out "[]" "tool_results_of bs"] by blast
      obtain ps where p:
        "map_err (raw_user_part to_string) (map enc_plain (plain_of bs)) = Inr ps"
        "map read_part ps = map user_part (plain_of bs)"
        using map_raw_user_part by blast
      show ?thesis
      proof (cases "plain_of bs = []")
        case True
        have "raw_convert_turn stringify_raw to_string out (enc_message m) = Inr (out @ vs)"
          using fields BlockContent user t(1) True
          by (simp add: raw_convert_turn_def is_string_def enc_message_def as_array_def
        fold_raw_user_reducer)
        moreover have "map read_message vs = emit stringify m"
          using fields BlockContent user t(2) True by (simp add: emit_user_blocks)
        ultimately show ?thesis by blast
      next
        case False
        let ?u = "VObj [(''role'', VStr ''user''), (''content'', VArr ps)]"
        have "raw_convert_turn stringify_raw to_string out (enc_message m) =
                Inr (out @ (vs @ [?u]))"
          using fields BlockContent user t(1) p(1) False
          by (simp add: raw_convert_turn_def is_string_def enc_message_def as_array_def
        fold_raw_user_reducer)
        moreover have "map read_message (vs @ [?u]) = emit stringify m"
          using fields BlockContent user t(2) p(2) False
          by (simp add: emit_user_blocks read_message_def read_string_def)
        ultimately show ?thesis by blast
      qed
    next
      case assistant
      obtain cs where c:
        "map_err (raw_to_tool_call stringify_raw) (map enc_tool_use (tool_uses_of bs)) = Inr cs"
        "length cs = length (tool_uses_of bs)"
        "map read_call cs = map (to_tool_call stringify) (tool_uses_of bs)"
        using map_raw_to_tool_call [OF assms] by blast
      let ?a = "VObj [(''role'', VStr ''assistant''),
                      (''content'',
                       if plain_of bs = [] then VUndefined
                       else VStr (join newline (map assistant_part (plain_of bs)))),
                      (''tool_calls'', if cs = [] then VUndefined else VArr cs)]"
      have "raw_convert_turn stringify_raw to_string out (enc_message m) = Inr (out @ [?a])"
        using fields BlockContent assistant c(1)
        by (simp add: raw_convert_turn_def is_string_def enc_message_def as_array_def
        fold_raw_assistant_reducer map_raw_assistant_part raw_join_strings)
      moreover have "cs = [] \<longleftrightarrow> tool_uses_of bs = []"
        using c(2) by auto
      then have "map read_message [?a] = emit stringify m"
        using fields BlockContent assistant c(3)
        by (simp add: emit_assistant_blocks read_message_def read_string_def)
      ultimately show ?thesis by blast
    next
      case other
      have "raw_convert_turn stringify_raw to_string out (enc_message m) = Inr (out @ [])"
        using fields BlockContent other
        by (simp add: raw_convert_turn_def is_string_def enc_message_def)
      moreover have "map read_message [] = emit stringify m"
        using fields BlockContent other by (simp add: emit_def convert_turn_def)
      ultimately show ?thesis by blast
    qed
  qed
qed

lemma fold_raw_convert_turn:
  assumes "\<forall>j. stringify_raw (of_json j) = Inr (VStr (stringify j))"
  shows "\<exists>vs. fold_err (raw_convert_turn stringify_raw to_string) out (map enc_message ms) =
                Inr (out @ vs) \<and>
              map read_message vs = convertToOpenAiMessages stringify ms"
proof (induction ms arbitrary: out)
  case Nil
  show ?case by (simp add: convertToOpenAiMessages_def)
next
  case (Cons m ms)
  obtain v where 1:
    "raw_convert_turn stringify_raw to_string out (enc_message m) = Inr (out @ v)"
    "map read_message v = emit stringify m"
    using raw_convert_turn_enc [OF assms] by blast
  obtain vs where 2:
    "fold_err (raw_convert_turn stringify_raw to_string) (out @ v) (map enc_message ms) =
       Inr ((out @ v) @ vs)"
    "map read_message vs = convertToOpenAiMessages stringify ms"
    using Cons.IH by blast
  have "fold_err (raw_convert_turn stringify_raw to_string) out (map enc_message (m # ms)) =
          Inr (out @ (v @ vs))"
    using 1(1) 2(1) by simp
  moreover have "map read_message (v @ vs) = convertToOpenAiMessages stringify (m # ms)"
    using 1(2) 2(2) by (simp add: convert_Cons)
  ultimately show ?case by blast
qed

lemma stringify_raw_sample_ok:
  "stringify_raw_sample (of_json j) = Inr (VStr (stringify_sample j))"
proof (cases j)
  case (JObject props)
  then show ?thesis
    by (cases props) (simp_all add: stringify_raw_sample_def stringify_sample_def)
qed (simp_all add: stringify_raw_sample_def stringify_sample_def)

text \<open>
  Outside the data model the steps do throw: an image block without a source, a
  \<^verbatim>\<open>null\<close> block, a user or assistant turn without content, a tool result whose content is
  a number, and a tool input that \<^verbatim>\<open>JSON.stringify\<close> rejects.
\<close>

lemma raw_forward_failures:
  "raw_convertToOpenAiMessages stringify_raw_sample to_string_sample
     [VObj [(''role'', VStr ''user''),
            (''content'', VArr [VObj [(''type'', VStr ''image'')]])]] = Inl TypeError"
  "raw_convertToOpenAiMessages stringify_raw_sample to_string_sample
     [VObj [(''role'', VStr ''user''), (''content'', VArr [VNull])]] = Inl TypeError"
  "raw_convertToOpenAiMessages stringify_raw_sample to_string_sample
     [VObj [(''role'', VStr ''assistant'')]] = Inl TypeError"
  "raw_convertToOpenAiMessages stringify_raw_sample to_string_sample
     [VObj [(''role'', VStr ''user''),
            (''content'', VArr [VObj [(''type'', VStr ''tool_result''),
                                      (''tool_use_id'', VStr ''call_1''),
                                      (''content'', VNum 1)]])]] = Inl TypeError"
  "raw_convertToOpenAiMessages stringify_raw_sample to_string_sample
     [VObj [(''role'', VStr ''assistant''),
            (''content'', VArr [VObj [(''type'', VStr ''tool_use''), (''id'', VStr ''call_1''),
                                      (''name'', VStr ''read''),
                                      (''input'', VBigInt 1)]])]] = Inl TypeError"
  by (simp_all add: raw_convertToOpenAiMessages_def raw_convert_turn_def is_string_def
      as_array_def raw_user_reducer_def raw_assistant_reducer_def raw_user_part_def
      raw_getImageUrl_def raw_push_tool_message_def raw_tool_result_string_def
      raw_to_tool_call_def stringify_raw_sample_def get_def)

section \<open>Forward translation: the claims\<close>

text \<open>
  Claim C1. A user turn whose content is a block sequence is translated, wherever it
  stands in the conversation, to one turn of role \<open>tool\<close> for each of its tool-result blocks,
  in their original order and each with \<open>tool_call_id\<close> the block's \<open>tool_use_id\<close>, followed
  at once by one turn of role \<open>user\<close> holding all its text and image blocks when there is at
  least one of them, and by nothing otherwise.
\<close>

theorem user_turn_tool_results_first:
  "convertToOpenAiMessages stringify
     (pre @ \<lparr>role = ''user'', content = BlockContent bs\<rparr> # post) =
   convertToOpenAiMessages stringify pre @
   map (\<lambda>t. \<lparr>chat_role = ''tool'',
              chat_content = Some (ContentString (result_text (result_content t))),
              tool_call_id = Some (tool_use_id t), tool_calls = None\<rparr>)
     (tool_results_of bs) @
   (if plain_of bs = [] then []
    else [\<lparr>chat_role = ''user'',
           chat_content = Some (ContentParts (map user_part (plain_of bs))),
           tool_call_id = None, tool_calls = None\<rparr>]) @
   convertToOpenAiMessages stringify post"
proof -
  have "map tool_turn (tool_results_of bs) =
        map (\<lambda>t. \<lparr>chat_role = ''tool'',
              chat_content = Some (ContentString (result_text (result_content t))),
              tool_call_id = Some (tool_use_id t), tool_calls = None\<rparr>)
          (tool_results_of bs)"
    by (simp add: tool_turn_def)
  then show ?thesis
    by (simp add: convert_append convert_Cons emit_user_blocks)
qed

theorem user_turn_tool_results_first_witness:
  "convertToOpenAiMessages stringify_sample
     [\<lparr>role = ''user'', content = BlockContent
        [Plain (TextBlock ''feedback''),
         ToolResult \<lparr>tool_use_id = ''call_1'', result_content = Some (ResultString ''ok'')\<rparr>,
         Plain (TextBlock ''more''),
         ToolResult \<lparr>tool_use_id = ''call_2'', result_content = None\<rparr>]\<rparr>] =
   [\<lparr>chat_role = ''tool'', chat_content = Some (ContentString ''ok''),
     tool_call_id = Some ''call_1'', tool_calls = None\<rparr>,
    \<lparr>chat_role = ''tool'', chat_content = Some (ContentString ''''),
     tool_call_id = Some ''call_2'', tool_calls = None\<rparr>,
    \<lparr>chat_role = ''user'',
     chat_content = Some (ContentParts [TextPart ''feedback'', TextPart ''more'']),
     tool_call_id = None, tool_calls = None\<rparr>]"
  using user_turn_tool_results_first [of stringify_sample "[]"
      "[Plain (TextBlock ''feedback''),
         ToolResult \<lparr>tool_use_id = ''call_1'', result_content = Some (ResultString ''ok'')\<rparr>,
         Plain (TextBlock ''more''),
         ToolResult \<lparr>tool_use_id = ''call_2'', result_content = None\<rparr>]" "[]"]
  by (simp add: tool_results_of_def plain_of_def convertToOpenAiMessages_def)

text \<open>
  Claim C2. An assistant turn whose content is a block sequence is translated to exactly one
  turn of role \<open>assistant\<close>. Its content is absent when the turn has no text or image block,
  and otherwise the texts joined with newlines, an image counting as the empty string. Its
  \<open>tool_calls\<close> is absent when the turn has no tool-invocation block, and otherwise holds one
  call of type \<open>function\<close> for each, with the block's id and name and its input serialised:
  it is never an empty sequence.
\<close>

theorem assistant_turn_one_message:
  "convertToOpenAiMessages stringify
     (pre @ \<lparr>role = ''assistant'', content = BlockContent bs\<rparr> # post) =
   convertToOpenAiMessages stringify pre @
   [\<lparr>chat_role = ''assistant'',
     chat_content =
       (if plain_of bs = [] then None
        else Some (ContentString
               (join [CHR 0x0A]
                  (map (\<lambda>p. case p of TextBlock text \<Rightarrow> text | ImageBlock _ \<Rightarrow> '''')
                     (plain_of bs))))),
     tool_call_id = None,
     tool_calls =
       (if tool_uses_of bs = [] then None
        else Some (map (\<lambda>u. \<lparr>call_id = use_id u, call_type = ''function'',
                               call_function =
                                 \<lparr>fn_name = use_name u,
                                  fn_arguments = stringify (use_input u)\<rparr>\<rparr>)
                     (tool_uses_of bs)))\<rparr>] @
   convertToOpenAiMessages stringify post"
proof -
  have 1: "assistant_part = (\<lambda>p. case p of TextBlock text \<Rightarrow> text | ImageBlock _ \<Rightarrow> '''')"
    by (rule ext) (simp split: text_or_image.split)
  have 2: "map (to_tool_call stringify) us =
           map (\<lambda>u. \<lparr>call_id = use_id u, call_type = ''function'',
                               call_function =
                                 \<lparr>fn_name = use_name u,
                                  fn_arguments = stringify (use_input u)\<rparr>\<rparr>) us" for us
    by (simp add: to_tool_call_def)
  show ?thesis
    by (simp add: convert_append convert_Cons emit_assistant_blocks 1 2 newline_def)
qed

theorem assistant_turn_one_message_witness:
  "convertToOpenAiMessages stringify_sample
     [\<lparr>role = ''assistant'', content = BlockContent
        [Plain (TextBlock ''a''), ToolUse \<lparr>use_id = ''call_1'', use_name = ''read'', use_input = JObject []\<rparr>,
         Plain (ImageBlock (UrlSource ''http://x'')), Plain (TextBlock ''b'')]\<rparr>,
      \<lparr>role = ''assistant'', content = BlockContent []\<rparr>] =
   [\<lparr>chat_role = ''assistant'',
     chat_content = Some (ContentString [CHR ''a'', CHR 0x0A, CHR 0x0A, CHR ''b'']),
     tool_call_id = None,
     tool_calls = Some [\<lparr>call_id = ''call_1'', call_type = ''function'',
                         call_function = \<lparr>fn_name = ''read'', fn_arguments = ''{}''\<rparr>\<rparr>]\<rparr>,
    \<lparr>chat_role = ''assistant'', chat_content = None, tool_call_id = None, tool_calls = None\<rparr>]"
  using assistant_turn_one_message [of stringify_sample "[]"
        "[Plain (TextBlock ''a''), ToolUse \<lparr>use_id = ''call_1'', use_name = ''read'', use_input = JObject []\<rparr>,
         Plain (ImageBlock (UrlSource ''http://x'')), Plain (TextBlock ''b'')]"
        "[\<lparr>role = ''assistant'', content = BlockContent []\<rparr>]"]
    assistant_turn_one_message [of stringify_sample "[]" "[]" "[]"]
  by (simp add: tool_uses_of_def plain_of_def convertToOpenAiMessages_def stringify_sample_def)

text \<open>
  Claim C3. A tool result whose content is a block sequence becomes a \<open>tool\<close> turn whose
  content is one string: the texts joined with newlines, with the placeholder
  \<open>(see following user message for image)\<close> in the place of every image. The images are
  appended to \<open>toolResultImages\<close>, and no turn of the output carries them: the image parts of
  the whole output are those of the image blocks that stand directly in user turns.
\<close>

theorem tool_result_blocks_flattened:
  "push_tool_message (openAiMessages, toolResultImages)
     \<lparr>tool_use_id = i, result_content = Some (ResultBlocks parts)\<rparr> =
     (openAiMessages @
        [\<lparr>chat_role = ''tool'',
          chat_content = Some (ContentString
            (join [CHR 0x0A]
               (map (\<lambda>p. case p of
                            TextBlock text \<Rightarrow> text
                          | ImageBlock _ \<Rightarrow> ''(see following user message for image)'')
                  parts))),
          tool_call_id = Some i, tool_calls = None\<rparr>],
      toolResultImages @ [src. ImageBlock src \<leftarrow> parts])
   \<and> convertToOpenAiMessages stringify
        (pre @ \<lparr>role = ''user'', content = BlockContent
                  (bs1 @ ToolResult \<lparr>tool_use_id = i,
                                      result_content = Some (ResultBlocks parts)\<rparr> # bs2)\<rparr> # post) =
      convertToOpenAiMessages stringify pre @
      map tool_turn (tool_results_of bs1) @
      [\<lparr>chat_role = ''tool'',
        chat_content = Some (ContentString
          (join [CHR 0x0A]
             (map (\<lambda>p. case p of
                          TextBlock text \<Rightarrow> text
                        | ImageBlock _ \<Rightarrow> ''(see following user message for image)'')
                parts))),
        tool_call_id = Some i, tool_calls = None\<rparr>] @
      map tool_turn (tool_results_of bs2) @
      (if plain_of (bs1 @ bs2) = [] then []
       else [\<lparr>chat_role = ''user'',
              chat_content = Some (ContentParts (map user_part (plain_of (bs1 @ bs2)))),
              tool_call_id = None, tool_calls = None\<rparr>]) @
      convertToOpenAiMessages stringify post
   \<and> concat (map image_urls (convertToOpenAiMessages stringify ms)) =
       concat (map top_level_image_urls ms)"
proof -
  have pt: "part_text =
        (\<lambda>p. case p of
                   TextBlock text \<Rightarrow> text
                 | ImageBlock _ \<Rightarrow> ''(see following user message for image)'')"
    by (rule ext) (simp add: placeholder_def split: text_or_image.split)
  have r: "tool_results_of (bs1 @ ToolResult t # bs2) =
           tool_results_of bs1 @ t # tool_results_of bs2" for t
    by (simp add: tool_results_of_def)
  have p: "plain_of (bs1 @ ToolResult t # bs2) = plain_of (bs1 @ bs2)" for t
    by (simp add: plain_of_def)
  have one: "push_tool_message (openAiMessages, toolResultImages)
     \<lparr>tool_use_id = i, result_content = Some (ResultBlocks parts)\<rparr> =
     (openAiMessages @
        [\<lparr>chat_role = ''tool'',
          chat_content = Some (ContentString (join [CHR 0x0A] (map part_text parts))),
          tool_call_id = Some i, tool_calls = None\<rparr>],
      toolResultImages @ [src. ImageBlock src \<leftarrow> parts])"
    by (simp add: tool_result_string_eq images_of_def newline_def)
  have two: "emit stringify \<lparr>role = ''user'', content = BlockContent
                  (bs1 @ ToolResult \<lparr>tool_use_id = i,
                                      result_content = Some (ResultBlocks parts)\<rparr> # bs2)\<rparr> =
      map tool_turn (tool_results_of bs1) @
      [\<lparr>chat_role = ''tool'',
        chat_content = Some (ContentString (join [CHR 0x0A] (map part_text parts))),
        tool_call_id = Some i, tool_calls = None\<rparr>] @
      map tool_turn (tool_results_of bs2) @
      (if plain_of (bs1 @ bs2) = [] then []
       else [\<lparr>chat_role = ''user'',
              chat_content = Some (ContentParts (map user_part (plain_of (bs1 @ bs2)))),
              tool_call_id = None, tool_calls = None\<rparr>])"
    by (simp add: emit_user_blocks r p tool_turn_def newline_def)
  show ?thesis
    unfolding pt [symmetric]
    by (simp only: one two convert_append convert_Cons image_urls_convert append_assoc simp_thms)
qed

theorem tool_result_blocks_flattened_witness:
  "convertToOpenAiMessages stringify_sample
     [\<lparr>role = ''user'', content = BlockContent
        [ToolResult \<lparr>tool_use_id = ''call_1'', result_content =
           Some (ResultBlocks [TextBlock ''a'', ImageBlock (UrlSource ''http://x/y.png'')])\<rparr>]\<rparr>] =
     [\<lparr>chat_role = ''tool'',
       chat_content = Some (ContentString
         ([CHR ''a'', CHR 0x0A] @ ''(see following user message for image)'')),
       tool_call_id = Some ''call_1'', tool_calls = None\<rparr>]
   \<and> concat (map image_urls (convertToOpenAiMessages stringify_sample
     [\<lparr>role = ''user'', content = BlockContent
        [ToolResult \<lparr>tool_use_id = ''call_1'', result_content =
           Some (ResultBlocks [TextBlock ''a'', ImageBlock (UrlSource ''http://x/y.png'')])\<rparr>]\<rparr>])) = []"
  using tool_result_blocks_flattened [of "[]" "[]" "''call_1''"
      "[TextBlock ''a'', ImageBlock (UrlSource ''http://x/y.png'')]" stringify_sample
      "[]" "[]" "[]" "[]"
      "[\<lparr>role = ''user'', content = BlockContent
        [ToolResult \<lparr>tool_use_id = ''call_1'', result_content =
           Some (ResultBlocks [TextBlock ''a'', ImageBlock (UrlSource ''http://x/y.png'')])\<rparr>]\<rparr>]"]
  by (simp add: convertToOpenAiMessages_def convert_turn_def plain_of_def images_of_def)

text \<open>
  Claim C4. The image part made from an image block has the URL \<open>data:\<close>, the media type,
  \<open>;base64,\<close> and the data when the source is base64 (so \<open>image/png\<close> with data \<open>AAAA\<close> gives
  \<open>data:image/png;base64,AAAA\<close>), and the source's URL as it is when the source is a URL; the
  \<open>user\<close> turn of a user turn's text and image blocks holds exactly these parts.
\<close>

theorem image_url_construction:
  "getImageUrl (Base64Source media_type d) = ImageUrlPart (''data:'' @ media_type @ '';base64,'' @ d)
   \<and> getImageUrl (UrlSource u) = ImageUrlPart u
   \<and> getImageUrl (Base64Source ''image/png'' ''AAAA'') = ImageUrlPart ''data:image/png;base64,AAAA''
   \<and> convertToOpenAiMessages stringify
        (pre @ \<lparr>role = ''user'', content = BlockContent bs\<rparr> # post) =
      convertToOpenAiMessages stringify pre @
      map (\<lambda>t. \<lparr>chat_role = ''tool'',
                 chat_content = Some (ContentString (result_text (result_content t))),
                 tool_call_id = Some (tool_use_id t), tool_calls = None\<rparr>)
        (tool_results_of bs) @
      (if plain_of bs = [] then []
       else [\<lparr>chat_role = ''user'',
              chat_content = Some (ContentParts (map spec_part (plain_of bs))),
              tool_call_id = None, tool_calls = None\<rparr>]) @
      convertToOpenAiMessages stringify post"
proof -
  have "map user_part ps = map spec_part ps" for ps
  proof (rule map_cong [OF refl])
    fix p show "user_part p = spec_part p"
    proof (cases p)
      case (TextBlock s)
      then show ?thesis by simp
    next
      case (ImageBlock src)
      then show ?thesis by (cases src) simp_all
    qed
  qed
  moreover have "map tool_turn ts =
        map (\<lambda>t. \<lparr>chat_role = ''tool'',
              chat_content = Some (ContentString (result_text (result_content t))),
              tool_call_id = Some (tool_use_id t), tool_calls = None\<rparr>) ts" for ts
    by (simp add: tool_turn_def)
  ultimately show ?thesis
    by (simp add: convert_append convert_Cons emit_user_blocks)
qed

theorem image_url_construction_witness:
  "convertToOpenAiMessages stringify_sample
     [\<lparr>role = ''user'', content = BlockContent
        [Plain (ImageBlock (Base64Source ''image/png'' ''AAAA'')),
         Plain (ImageBlock (UrlSource ''https://example.com/cat.png''))]\<rparr>] =
   [\<lparr>chat_role = ''user'',
     chat_content = Some (ContentParts
       [ImageUrlPart ''data:image/png;base64,AAAA'',
        ImageUrlPart ''https://example.com/cat.png'']),
     tool_call_id = None, tool_calls = None\<rparr>]"
  using image_url_construction [of "''image/png''" "''AAAA''" "''https://example.com/cat.png''"
      stringify_sample "[]"
      "[Plain (ImageBlock (Base64Source ''image/png'' ''AAAA'')),
         Plain (ImageBlock (UrlSource ''https://example.com/cat.png''))]" "[]"]
  by (simp add: convertToOpenAiMessages_def plain_of_def tool_results_of_def)

text \<open>
  Claim C9. A tool-invocation block in a user turn and a tool-result block in an assistant
  turn are pushed to neither partition, and the output is the output of the conversation
  without that block.
\<close>

theorem disallowed_blocks_dropped:
  "foldl user_reducer ([], []) (bs1 @ ToolUse u # bs2) = foldl user_reducer ([], []) (bs1 @ bs2)
   \<and> foldl assistant_reducer ([], []) (bs1 @ ToolResult t # bs2) =
       foldl assistant_reducer ([], []) (bs1 @ bs2)
   \<and> convertToOpenAiMessages stringify
        (pre @ \<lparr>role = ''user'', content = BlockContent (bs1 @ ToolUse u # bs2)\<rparr> # post) =
      convertToOpenAiMessages stringify
        (pre @ \<lparr>role = ''user'', content = BlockContent (bs1 @ bs2)\<rparr> # post)
   \<and> convertToOpenAiMessages stringify
        (pre @ \<lparr>role = ''assistant'', content = BlockContent (bs1 @ ToolResult t # bs2)\<rparr> # post) =
      convertToOpenAiMessages stringify
        (pre @ \<lparr>role = ''assistant'', content = BlockContent (bs1 @ bs2)\<rparr> # post)"
proof -
  have r: "tool_results_of (bs1 @ ToolUse u # bs2) = tool_results_of (bs1 @ bs2)"
    by (simp add: tool_results_of_def)
  have us: "tool_uses_of (bs1 @ ToolResult t # bs2) = tool_uses_of (bs1 @ bs2)"
    by (simp add: tool_uses_of_def)
  have pu: "plain_of (bs1 @ ToolUse u # bs2) = plain_of (bs1 @ bs2)"
    by (simp add: plain_of_def)
  have pr: "plain_of (bs1 @ ToolResult t # bs2) = plain_of (bs1 @ bs2)"
    by (simp add: plain_of_def)
  have a: "foldl user_reducer ([], []) (bs1 @ ToolUse u # bs2) =
           foldl user_reducer ([], []) (bs1 @ bs2)"
    by (simp only: foldl_user_reducer pu r)
  have b: "foldl assistant_reducer ([], []) (bs1 @ ToolResult t # bs2) =
           foldl assistant_reducer ([], []) (bs1 @ bs2)"
    by (simp only: foldl_assistant_reducer pr us)
  have c: "emit stringify \<lparr>role = ''user'', content = BlockContent (bs1 @ ToolUse u # bs2)\<rparr> =
           emit stringify \<lparr>role = ''user'', content = BlockContent (bs1 @ bs2)\<rparr>"
    by (simp only: emit_user_blocks pu r)
  have d: "emit stringify \<lparr>role = ''assistant'', content = BlockContent (bs1 @ ToolResult t # bs2)\<rparr> =
           emit stringify \<lparr>role = ''assistant'', content = BlockContent (bs1 @ bs2)\<rparr>"
    by (simp only: emit_assistant_blocks pr us)
  show ?thesis
    by (simp only: a b convert_append convert_Cons c d simp_thms)
qed

theorem disallowed_blocks_dropped_witness:
  "convertToOpenAiMessages stringify_sample
     [\<lparr>role = ''user'', content = BlockContent
        [Plain (TextBlock ''hi''),
         ToolUse \<lparr>use_id = ''call_1'', use_name = ''read'', use_input = JObject []\<rparr>]\<rparr>] =
   [\<lparr>chat_role = ''user'', chat_content = Some (ContentParts [TextPart ''hi'']),
     tool_call_id = None, tool_calls = None\<rparr>]
   \<and> convertToOpenAiMessages stringify_sample
     [\<lparr>role = ''assistant'', content = BlockContent
        [Plain (TextBlock ''hi''),
         ToolResult \<lparr>tool_use_id = ''call_1'', result_content = Some (ResultString ''out'')\<rparr>]\<rparr>] =
   [\<lparr>chat_role = ''assistant'', chat_content = Some (ContentString ''hi''),
     tool_call_id = None, tool_calls = None\<rparr>]"
  using disallowed_blocks_dropped [of "[Plain (TextBlock ''hi'')]"
      "\<lparr>use_id = ''call_1'', use_name = ''read'', use_input = JObject []\<rparr>" "[]"
      "\<lparr>tool_use_id = ''call_1'', result_content = Some (ResultString ''out'')\<rparr>"
      stringify_sample "[]" "[]"]
  by (simp add: convertToOpenAiMessages_def convert_turn_def)

section \<open>Reverse translation: the claims\<close>

text \<open>
  Claim C5. The stop reason of the message is \<open>end_turn\<close> for the finish reason \<open>stop\<close>,
  \<open>max_tokens\<close> for \<open>length\<close>, \<open>tool_use\<close> for \<open>tool_calls\<close>, and null for every other finish
  reason, \<open>content_filter\<close> among them.
\<close>

theorem finish_reason_mapping:
  assumes "choices c = ch # rest"
  shows "\<exists>m logged. convertToAnthropicMessage parse c = Inr (m, logged) \<and>
           stop_reason m =
             (case finish_reason ch of
                None \<Rightarrow> None
              | Some fr \<Rightarrow>
                  if fr = ''stop'' then Some ''end_turn''
                  else if fr = ''length'' then Some ''max_tokens''
                  else if fr = ''tool_calls'' then Some ''tool_use''
                  else None)"
  using convertToAnthropicMessage_value [OF assms, of parse]
  by (simp add: map_finish_reason_def split: option.split)

theorem finish_reason_mapping_witness:
  "\<exists>m logged.
     convertToAnthropicMessage parse_sample
       \<lparr>completion_id = ''c1'',
        choices = [\<lparr>choice_message = \<lparr>cm_role = ''assistant'', cm_content = Some ''hi'',
                                       cm_tool_calls = None\<rparr>,
                    finish_reason = Some ''content_filter''\<rparr>],
        completion_model = ''gpt'', usage = None\<rparr> = Inr (m, logged)
     \<and> stop_reason m = None"
  using finish_reason_mapping [of
      "\<lparr>completion_id = ''c1'',
        choices = [\<lparr>choice_message = \<lparr>cm_role = ''assistant'', cm_content = Some ''hi'',
                                       cm_tool_calls = None\<rparr>,
                    finish_reason = Some ''content_filter''\<rparr>],
        completion_model = ''gpt'', usage = None\<rparr>"
      "\<lparr>choice_message = \<lparr>cm_role = ''assistant'', cm_content = Some ''hi'',
                                       cm_tool_calls = None\<rparr>,
                    finish_reason = Some ''content_filter''\<rparr>" "[]" parse_sample]
  by simp

text \<open>
  Claim C6. As stated, the claim fails for the empty arguments string: it is not valid
  JSON, yet the translator parses \<open>{}\<close> in its place and reports nothing.
\<close>

theorem empty_arguments_not_reported:
  "parse_sample '''' = Inl ''SyntaxError''
   \<and> convertToAnthropicMessage parse_sample
       \<lparr>completion_id = ''c1'',
        choices = [\<lparr>choice_message =
                      \<lparr>cm_role = ''assistant'', cm_content = None,
                       cm_tool_calls = Some [\<lparr>call_id = ''call_1'', call_type = ''function'',
                          call_function = \<lparr>fn_name = ''list'', fn_arguments = ''''\<rparr>\<rparr>]\<rparr>,
                    finish_reason = Some ''tool_calls''\<rparr>],
        completion_model = ''gpt'', usage = None\<rparr> =
     Inr (\<lparr>msg_id = ''c1'', msg_type = ''message'', msg_role = ''assistant'',
           msg_content = [TextOut '''' None, ToolUseOut ''call_1'' ''list'' (JObject [])],
           msg_model = ''gpt'', stop_reason = Some ''tool_use'', stop_sequence = None,
           msg_usage = \<lparr>input_tokens = 0, output_tokens = 0,
                         cache_creation_input_tokens = 0, cache_read_input_tokens = 0\<rparr>\<rparr>,
          [])"
  by (simp add: parse_sample_def convertToAnthropicMessage_def or_string_def
      map_finish_reason_def)

text \<open>
  Claim C6, amended. Every tool call gets its block, in order, whether or not others fail
  to parse: the input is the parsed arguments, or the empty object when \<open>parse\<close> rejects them,
  and each rejection is written to the diagnostic sink. A call whose arguments string is not
  empty and is rejected by \<open>parse\<close> therefore has a block with input \<open>{}\<close> and a line in the
  sink. The empty arguments string is replaced by \<open>{}\<close> before parsing.
\<close>

theorem malformed_arguments_recovered:
  assumes "choices c = ch # rest"
    and "cm_tool_calls (choice_message ch) = Some calls"
  shows "\<exists>m logged. convertToAnthropicMessage parse c = Inr (m, logged) \<and>
     msg_content m =
       TextOut (case cm_content (choice_message ch) of None \<Rightarrow> '''' | Some s \<Rightarrow> s) None #
       map (\<lambda>tc. ToolUseOut (call_id tc) (fn_name (call_function tc))
                   (case parse (if fn_arguments (call_function tc) = [] then ''{}''
                                else fn_arguments (call_function tc)) of
                      Inr v \<Rightarrow> v
                    | Inl _ \<Rightarrow> JObject []))
         calls \<and>
     logged =
       concat (map (\<lambda>tc. case parse (if fn_arguments (call_function tc) = [] then ''{}''
                                       else fn_arguments (call_function tc)) of
                            Inr _ \<Rightarrow> []
                          | Inl e \<Rightarrow> [(''Failed to parse tool arguments:'', e)])
                 calls) \<and>
     (\<forall>tc e. tc \<in> set calls \<and> fn_arguments (call_function tc) \<noteq> [] \<and>
             parse (fn_arguments (call_function tc)) = Inl e \<longrightarrow>
             ToolUseOut (call_id tc) (fn_name (call_function tc)) (JObject [])
               \<in> set (msg_content m) \<and>
             (''Failed to parse tool arguments:'', e) \<in> set logged)"
proof -
  have c: "calls_of ch = calls"
    using assms(2) by (simp add: calls_of_def)
  have b: "parsed_block parse =
           (\<lambda>tc. ToolUseOut (call_id tc) (fn_name (call_function tc))
                   (case parse (if fn_arguments (call_function tc) = [] then ''{}''
                                else fn_arguments (call_function tc)) of
                      Inr v \<Rightarrow> v
                    | Inl _ \<Rightarrow> JObject []))"
    by (rule ext) (simp add: parsed_block_def effective_arguments_def)
  have l: "parse_log parse =
           (\<lambda>tc. case parse (if fn_arguments (call_function tc) = [] then ''{}''
                                       else fn_arguments (call_function tc)) of
                            Inr _ \<Rightarrow> []
                          | Inl e \<Rightarrow> [(''Failed to parse tool arguments:'', e)])"
    by (rule ext) (simp add: parse_log_def effective_arguments_def)
  have member: "ToolUseOut (call_id tc) (fn_name (call_function tc)) (JObject [])
                  \<in> set (map (parsed_block parse) calls) \<and>
                (''Failed to parse tool arguments:'', e)
                  \<in> set (concat (map (parse_log parse) calls))"
    if "tc \<in> set calls" "fn_arguments (call_function tc) \<noteq> []"
      "parse (fn_arguments (call_function tc)) = Inl e" for tc e
  proof
    have "parsed_block parse tc =
          ToolUseOut (call_id tc) (fn_name (call_function tc)) (JObject [])"
      using that(2,3) by (simp add: parsed_block_def effective_arguments_def)
    with that(1) show "ToolUseOut (call_id tc) (fn_name (call_function tc)) (JObject [])
                  \<in> set (map (parsed_block parse) calls)"
      by (metis imageI set_map)
    have "parse_log parse tc = [(''Failed to parse tool arguments:'', e)]"
      using that(2,3) by (simp add: parse_log_def effective_arguments_def)
    with that(1) show "(''Failed to parse tool arguments:'', e)
                  \<in> set (concat (map (parse_log parse) calls))"
      by force
  qed
  let ?m = "\<lparr>msg_id = completion_id c, msg_type = ''message'',
           msg_role = cm_role (choice_message ch),
           msg_content = TextOut (text_of ch) None # map (parsed_block parse) calls,
           msg_model = completion_model c,
           stop_reason = map_finish_reason (finish_reason ch),
           stop_sequence = None,
           msg_usage =
             \<lparr>input_tokens = (case usage c of None \<Rightarrow> 0 | Some u \<Rightarrow> prompt_tokens u),
              output_tokens = (case usage c of None \<Rightarrow> 0 | Some u \<Rightarrow> completion_tokens u),
              cache_creation_input_tokens = 0, cache_read_input_tokens = 0\<rparr>\<rparr>"
  let ?logged = "concat (map (parse_log parse) calls)"
  have r: "convertToAnthropicMessage parse c = Inr (?m, ?logged)"
    using convertToAnthropicMessage_value [OF assms(1), of parse] by (simp add: c)
  have mc: "msg_content ?m =
            TextOut (case cm_content (choice_message ch) of None \<Rightarrow> '''' | Some s \<Rightarrow> s) None #
            map (parsed_block parse) calls"
    by (simp add: text_of_def)
  have mem: "\<forall>tc e. tc \<in> set calls \<and> fn_arguments (call_function tc) \<noteq> [] \<and>
               parse (fn_arguments (call_function tc)) = Inl e \<longrightarrow>
               ToolUseOut (call_id tc) (fn_name (call_function tc)) (JObject [])
                 \<in> set (msg_content ?m) \<and>
               (''Failed to parse tool arguments:'', e) \<in> set ?logged"
    using member by simp blast
  show ?thesis
    unfolding b [symmetric] l [symmetric]
    using r mc mem by blast
qed

theorem malformed_arguments_recovered_witness:
  "convertToAnthropicMessage parse_sample
       \<lparr>completion_id = ''c1'',
        choices = [\<lparr>choice_message =
                      \<lparr>cm_role = ''assistant'', cm_content = None,
                       cm_tool_calls = Some
                         [\<lparr>call_id = ''call_1'', call_type = ''function'',
                           call_function = \<lparr>fn_name = ''read'', fn_arguments = ''not json''\<rparr>\<rparr>,
                          \<lparr>call_id = ''call_2'', call_type = ''function'',
                           call_function = \<lparr>fn_name = ''sum'', fn_arguments = ''[1]''\<rparr>\<rparr>]\<rparr>,
                    finish_reason = Some ''tool_calls''\<rparr>],
        completion_model = ''gpt'', usage = None\<rparr> =
     Inr (\<lparr>msg_id = ''c1'', msg_type = ''message'', msg_role = ''assistant'',
           msg_content = [TextOut '''' None, ToolUseOut ''call_1'' ''read'' (JObject []),
                          ToolUseOut ''call_2'' ''sum'' (JArray [JNumber 1])],
           msg_model = ''gpt'', stop_reason = Some ''tool_use'', stop_sequence = None,
           msg_usage = \<lparr>input_tokens = 0, output_tokens = 0,
                         cache_creation_input_tokens = 0, cache_read_input_tokens = 0\<rparr>\<rparr>,
          [(''Failed to parse tool arguments:'', ''SyntaxError'')])"
  using malformed_arguments_recovered [of
       "\<lparr>completion_id = ''c1'',
        choices = [\<lparr>choice_message =
                      \<lparr>cm_role = ''assistant'', cm_content = None,
                       cm_tool_calls = Some
                         [\<lparr>call_id = ''call_1'', call_type = ''function'',
                           call_function = \<lparr>fn_name = ''read'', fn_arguments = ''not json''\<rparr>\<rparr>,
                          \<lparr>call_id = ''call_2'', call_type = ''function'',
                           call_function = \<lparr>fn_name = ''sum'', fn_arguments = ''[1]''\<rparr>\<rparr>]\<rparr>,
                    finish_reason = Some ''tool_calls''\<rparr>],
        completion_model = ''gpt'', usage = None\<rparr>"
       "\<lparr>choice_message =
                      \<lparr>cm_role = ''assistant'', cm_content = None,
                       cm_tool_calls = Some
                         [\<lparr>call_id = ''call_1'', call_type = ''function'',
                           call_function = \<lparr>fn_name = ''read'', fn_arguments = ''not json''\<rparr>\<rparr>,
                          \<lparr>call_id = ''call_2'', call_type = ''function'',
                           call_function = \<lparr>fn_name = ''sum'', fn_arguments = ''[1]''\<rparr>\<rparr>]\<rparr>,
                    finish_reason = Some ''tool_calls''\<rparr>"
       "[]"
       "[\<lparr>call_id = ''call_1'', call_type = ''function'',
                           call_function = \<lparr>fn_name = ''read'', fn_arguments = ''not json''\<rparr>\<rparr>,
                          \<lparr>call_id = ''call_2'', call_type = ''function'',
                           call_function = \<lparr>fn_name = ''sum'', fn_arguments = ''[1]''\<rparr>\<rparr>]"
       parse_sample]
  by (simp add: parse_sample_def convertToAnthropicMessage_def or_string_def
      map_finish_reason_def empty_object_def)

text \<open>
  Claim C7. Without a usage object the message has \<open>input_tokens = 0\<close> and
  \<open>output_tokens = 0\<close>; with one it has the prompt and completion token counts; the two cache
  counters are 0 in both cases.
\<close>

theorem usage_defaulting:
  assumes "choices c = ch # rest"
  shows "\<exists>m logged. convertToAnthropicMessage parse c = Inr (m, logged) \<and>
           input_tokens (msg_usage m) =
             (case usage c of None \<Rightarrow> 0 | Some u \<Rightarrow> prompt_tokens u) \<and>
           output_tokens (msg_usage m) =
             (case usage c of None \<Rightarrow> 0 | Some u \<Rightarrow> completion_tokens u) \<and>
           cache_creation_input_tokens (msg_usage m) = 0 \<and>
           cache_read_input_tokens (msg_usage m) = 0"
  using convertToAnthropicMessage_value [OF assms, of parse]
  by simp

theorem usage_defaulting_witness:
  "\<exists>m logged.
     convertToAnthropicMessage parse_sample
       \<lparr>completion_id = ''c1'',
        choices = [\<lparr>choice_message = \<lparr>cm_role = ''assistant'', cm_content = Some ''hi'',
                                       cm_tool_calls = None\<rparr>,
                    finish_reason = Some ''stop''\<rparr>],
        completion_model = ''gpt'', usage = None\<rparr> = Inr (m, logged)
     \<and> msg_usage m = \<lparr>input_tokens = 0, output_tokens = 0,
                       cache_creation_input_tokens = 0, cache_read_input_tokens = 0\<rparr>"
  using usage_defaulting [of
      "\<lparr>completion_id = ''c1'',
        choices = [\<lparr>choice_message = \<lparr>cm_role = ''assistant'', cm_content = Some ''hi'',
                                       cm_tool_calls = None\<rparr>,
                    finish_reason = Some ''stop''\<rparr>],
        completion_model = ''gpt'', usage = None\<rparr>"
      "\<lparr>choice_message = \<lparr>cm_role = ''assistant'', cm_content = Some ''hi'',
                                       cm_tool_calls = None\<rparr>,
                    finish_reason = Some ''stop''\<rparr>" "[]" parse_sample]
  by auto

text \<open>
  Claim C8. On well-formed input neither direction fails. On a completion with at least
  one choice the reverse translator returns a message, whatever \<open>parse\<close> does, and every
  line it writes to the diagnostic sink comes from a tool call whose arguments \<open>parse\<close>
  rejected. On every conversation of the data model, with a \<open>stringify\<close> that returns a
  string on every JSON value, the forward translator, run on the run-time values where each
  property read and method call may throw, returns a result, and that result is the one of
  the typed model.
\<close>

theorem translators_total:
  assumes "choices c = ch # rest"
    and "\<forall>j. stringify_raw (of_json j) = Inr (VStr (stringify j))"
  shows "(\<exists>m logged. convertToAnthropicMessage parse c = Inr (m, logged) \<and>
            (\<forall>entry \<in> set logged. \<exists>tc \<in> set (calls_of ch).
               parse (or_string (fn_arguments (call_function tc)) ''{}'') = Inl (snd entry)))
         \<and> (\<exists>out. raw_convertToOpenAiMessages stringify_raw to_string (map enc_message ms) =
                     Inr out \<and>
                   map read_message out = convertToOpenAiMessages stringify ms)"
proof -
  have "\<exists>tc \<in> set calls. parse (or_string (fn_arguments (call_function tc)) ''{}'') = Inl (snd entry)"
    if "entry \<in> set (concat (map (parse_log parse) calls))" for entry calls
  proof -
    from that obtain tc where tc: "tc \<in> set calls" "entry \<in> set (parse_log parse tc)"
      by auto
    from tc(2) have "parse (or_string (fn_arguments (call_function tc)) ''{}'') = Inl (snd entry)"
      by (cases "parse (effective_arguments tc)")
        (auto simp: parse_log_def effective_arguments_def or_string_def split: if_splits)
    with tc(1) show ?thesis by blast
  qed
  then have reverse:
    "\<exists>m logged. convertToAnthropicMessage parse c = Inr (m, logged) \<and>
            (\<forall>entry \<in> set logged. \<exists>tc \<in> set (calls_of ch).
               parse (or_string (fn_arguments (call_function tc)) ''{}'') = Inl (snd entry))"
    using convertToAnthropicMessage_value [OF assms(1), of parse] by simp
  have forward:
    "\<exists>out. raw_convertToOpenAiMessages stringify_raw to_string (map enc_message ms) = Inr out \<and>
           map read_message out = convertToOpenAiMessages stringify ms"
    using fold_raw_convert_turn [OF assms(2), of to_string "[]" ms]
    by (simp add: raw_convertToOpenAiMessages_def)
  from reverse forward show ?thesis by blast
qed

theorem translators_total_witness:
  "(\<exists>m. convertToAnthropicMessage parse_sample
       \<lparr>completion_id = ''c1'',
        choices = [\<lparr>choice_message =
                      \<lparr>cm_role = ''assistant'', cm_content = None,
                       cm_tool_calls = Some
                         [\<lparr>call_id = ''call_1'', call_type = ''function'',
                           call_function = \<lparr>fn_name = ''read'', fn_arguments = ''not json''\<rparr>\<rparr>]\<rparr>,
                    finish_reason = Some ''tool_calls''\<rparr>],
        completion_model = ''gpt'', usage = None\<rparr> =
        Inr (m, [(''Failed to parse tool arguments:'', ''SyntaxError'')]))
   \<and> raw_convertToOpenAiMessages stringify_raw_sample to_string_sample
       (map enc_message
         [\<lparr>role = ''user'', content = BlockContent
            [Plain (ImageBlock (Base64Source ''image/png'' ''AAAA'')),
             ToolResult \<lparr>tool_use_id = ''call_1'', result_content =
               Some (ResultBlocks [TextBlock ''a'', ImageBlock (UrlSource ''http://x/y.png'')])\<rparr>]\<rparr>,
          \<lparr>role = ''assistant'', content = BlockContent
            [Plain (TextBlock ''ok''),
             ToolUse \<lparr>use_id = ''call_2'', use_name = ''read'', use_input = JObject []\<rparr>]\<rparr>]) =
     Inr [VObj [(''role'', VStr ''tool''), (''tool_call_id'', VStr ''call_1''),
                (''content'', VStr ([CHR ''a'', CHR 0x0A] @
                                    ''(see following user message for image)''))],
          VObj [(''role'', VStr ''user''),
                (''content'',
                 VArr [VObj [(''type'', VStr ''image_url''),
                             (''image_url'',
                              VObj [(''url'', VStr ''data:image/png;base64,AAAA'')])]])],
          VObj [(''role'', VStr ''assistant''), (''content'', VStr ''ok''),
                (''tool_calls'',
                 VArr [VObj [(''id'', VStr ''call_2''), (''type'', VStr ''function''),
                             (''function'',
                              VObj [(''name'', VStr ''read''),
                                    (''arguments'', VStr ''{}'')])]])]]"
proof -
  have ok: "\<forall>j. stringify_raw_sample (of_json j) = Inr (VStr (stringify_sample j))"
    by (simp add: stringify_raw_sample_ok)
  have choice: "choices
       \<lparr>completion_id = ''c1'',
        choices = [\<lparr>choice_message =
                      \<lparr>cm_role = ''assistant'', cm_content = None,
                       cm_tool_calls = Some
                         [\<lparr>call_id = ''call_1'', call_type = ''function'',
                           call_function = \<lparr>fn_name = ''read'', fn_arguments = ''not json''\<rparr>\<rparr>]\<rparr>,
                    finish_reason = Some ''tool_calls''\<rparr>],
        completion_model = ''gpt'', usage = None\<rparr> =
     \<lparr>choice_message =
                      \<lparr>cm_role = ''assistant'', cm_content = None,
                       cm_tool_calls = Some
                         [\<lparr>call_id = ''call_1'', call_type = ''function'',
                           call_function = \<lparr>fn_name = ''read'', fn_arguments = ''not json''\<rparr>\<rparr>]\<rparr>,
                    finish_reason = Some ''tool_calls''\<rparr> # []"
    by simp
  show ?thesis
    using translators_total [OF choice ok, of parse_sample to_string_sample
        "[\<lparr>role = ''user'', content = BlockContent
            [Plain (ImageBlock (Base64Source ''image/png'' ''AAAA'')),
             ToolResult \<lparr>tool_use_id = ''call_1'', result_content =
               Some (ResultBlocks [TextBlock ''a'', ImageBlock (UrlSource ''http://x/y.png'')])\<rparr>]\<rparr>,
          \<lparr>role = ''assistant'', content = BlockContent
            [Plain (TextBlock ''ok''),
             ToolUse \<lparr>use_id = ''call_2'', use_name = ''read'', use_input = JObject []\<rparr>]\<rparr>]"]
    by (simp add: parse_sample_def convertToAnthropicMessage_def or_string_def
        raw_convertToOpenAiMessages_def raw_convert_turn_def is_string_def enc_message_def
        as_array_def raw_user_reducer_def raw_assistant_reducer_def enc_tool_result_def
        enc_tool_use_def raw_push_tool_message_def raw_tool_result_string_def
        raw_result_part_def raw_join_def raw_user_part_def raw_getImageUrl_def template_def
        raw_assistant_part_def raw_to_tool_call_def stringify_raw_sample_def placeholder_def
        newline_def)
qed

text \<open>
  Claim C10. The message's \<open>model\<close> field is the completion's \<open>model\<close> field.
\<close>

theorem model_copied:
  assumes "choices c = ch # rest"
  shows "\<exists>m logged. convertToAnthropicMessage parse c = Inr (m, logged) \<and>
           msg_model m = completion_model c"
  using convertToAnthropicMessage_value [OF assms, of parse]
  by simp

theorem model_copied_witness:
  "\<exists>m logged.
     convertToAnthropicMessage parse_sample
       \<lparr>completion_id = ''c1'',
        choices = [\<lparr>choice_message = \<lparr>cm_role = ''assistant'', cm_content = Some ''hi'',
                                       cm_tool_calls = None\<rparr>,
                    finish_reason = Some ''stop''\<rparr>],
        completion_model = ''gpt-4o-mini'', usage = None\<rparr> = Inr (m, logged)
     \<and> msg_model m = ''gpt-4o-mini''"
  using model_copied [of
      "\<lparr>completion_id = ''c1'',
        choices = [\<lparr>choice_message = \<lparr>cm_role = ''assistant'', cm_content = Some ''hi'',
                                       cm_tool_calls = None\<rparr>,
                    finish_reason = Some ''stop''\<rparr>],
        completion_model = ''gpt-4o-mini'', usage = None\<rparr>"
      "\<lparr>choice_message = \<lparr>cm_role = ''assistant'', cm_content = Some ''hi'',
                                       cm_tool_calls = None\<rparr>,
                    finish_reason = Some ''stop''\<rparr>" "[]" parse_sample]
  by simp

end
